theory Spec2Isabelle
  imports Complex_Main
begin

section \<open>Values of the JavaScript program\<close>

text \<open>
  The instrumentation (\<^verbatim>\<open>src/unnamed/part_000\<close>) observes one outgoing HTTP request.
  A JavaScript value that may be \<^verbatim>\<open>undefined\<close> is an \<open>option\<close> (\<open>None\<close> is
  \<^verbatim>\<open>undefined\<close>). A JavaScript number is \<open>NaN\<close> or an integer; durations, the only
  fractional numbers of the program, are rationals. Doubles are idealised: integers are
  unbounded and division is exact.
\<close>

datatype number = NaN | Num int

text \<open>\<^verbatim>\<open>process.hrtime()\<close> returns the pair \<^verbatim>\<open>[seconds, nanoseconds]\<close>.\<close>

type_synonym hrtime = "int \<times> int"

definition NS_PER_SEC :: rat where
  "NS_PER_SEC = 1000000000"

definition MS_PER_NS :: rat where
  "MS_PER_NS = 1000000"

text \<open>
  \<^verbatim>\<open>getDurationInMs(startTime, endTime)\<close>. An array is always truthy, so
  \<^verbatim>\<open>!startTime\<close> holds exactly when the argument is \<^verbatim>\<open>undefined\<close>.
\<close>

fun getDurationInMs :: "hrtime option \<Rightarrow> hrtime option \<Rightarrow> rat option" where
  "getDurationInMs None _ = None"
| "getDurationInMs _ None = None"
| "getDurationInMs (Some startTime) (Some endTime) =
     (let deltaSec = fst endTime - fst startTime;
          deltaNanos = snd endTime - snd startTime
      in Some ((of_int deltaSec * NS_PER_SEC + of_int deltaNanos) / MS_PER_NS))"

text \<open>
  The instant an \<open>hrtime\<close> pair denotes, in nanoseconds, and the elapsed time between
  two optional instants in the words of the specification.
\<close>

definition instant_ns :: "hrtime \<Rightarrow> int" where
  "instant_ns t = fst t * 1000000000 + snd t"

definition elapsed_ms :: "hrtime option \<Rightarrow> hrtime option \<Rightarrow> rat option" where
  "elapsed_ms a b =
     (case (a, b) of
        (Some x, Some y) \<Rightarrow> Some (of_int (instant_ns y - instant_ns x) / 1000000)
      | _ \<Rightarrow> None)"

text \<open>\<^verbatim>\<open>a || b\<close> on optional strings: the empty string is falsy.\<close>

definition truthy_str :: "string option \<Rightarrow> bool" where
  "truthy_str v = (case v of None \<Rightarrow> False | Some s \<Rightarrow> s \<noteq> [])"

definition or_str :: "string option \<Rightarrow> string option \<Rightarrow> string option" where
  "or_str a b = (if truthy_str a then a else b)"

subsection \<open>\<^verbatim>\<open>parseInt\<close> and number formatting\<close>

text \<open>
  \<^verbatim>\<open>parseInt(string, radix)\<close> of ECMAScript: white space is skipped, a sign is read, with
  no radix (or radix 16) a prefix \<^verbatim>\<open>0x\<close> selects base 16, and the longest prefix of digits
  of the base is the value; no digit at all gives \<open>NaN\<close>. Characters are the 8-bit
  characters of a header or option string.
\<close>

definition isWhiteSpace :: "char \<Rightarrow> bool" where
  "isWhiteSpace c = (of_char c \<in> {9, 10, 11, 12, 13, 32, 160 :: nat})"

definition digitValue :: "char \<Rightarrow> nat option" where
  "digitValue c =
     (let n = (of_char c :: nat) in
      if 48 \<le> n \<and> n \<le> 57 then Some (n - 48)
      else if 97 \<le> n \<and> n \<le> 122 then Some (n - 87)
      else if 65 \<le> n \<and> n \<le> 90 then Some (n - 55)
      else None)"

definition isRadixDigit :: "nat \<Rightarrow> char \<Rightarrow> bool" where
  "isRadixDigit r c = (case digitValue c of None \<Rightarrow> False | Some d \<Rightarrow> d < r)"

fun radixValue :: "nat \<Rightarrow> nat \<Rightarrow> string \<Rightarrow> nat" where
  "radixValue r acc [] = acc"
| "radixValue r acc (c # cs) =
     radixValue r (acc * r + (case digitValue c of None \<Rightarrow> 0 | Some d \<Rightarrow> d)) cs"

definition hasHexPrefix :: "string \<Rightarrow> bool" where
  "hasHexPrefix s = (take 2 s = ''0x'' \<or> take 2 s = ''0X'')"

definition parseInt :: "string \<Rightarrow> nat option \<Rightarrow> number" where
  "parseInt str radix =
     (let s1 = dropWhile isWhiteSpace str;
          negative = (take 1 s1 = ''-'');
          s2 = (if take 1 s1 = ''-'' \<or> take 1 s1 = ''+'' then drop 1 s1 else s1);
          r0 = (case radix of None \<Rightarrow> 0 | Some r \<Rightarrow> r);
          stripPrefix = (r0 = 0 \<or> r0 = 16);
          r1 = (if r0 = 0 then 10 else r0)
      in if r0 \<noteq> 0 \<and> (r0 < 2 \<or> 36 < r0) then NaN
         else
           let hex = (stripPrefix \<and> hasHexPrefix s2);
               s3 = (if hex then drop 2 s2 else s2);
               r = (if hex then 16 else r1);
               z = takeWhile (isRadixDigit r) s3
           in if z = [] then NaN
              else Num ((if negative then - 1 else 1) * int (radixValue r 0 z)))"

text \<open>\<^verbatim>\<open>isNaN(v)\<close> converts to a number first: \<^verbatim>\<open>undefined\<close> becomes \<open>NaN\<close>.\<close>

definition isNaN :: "number option \<Rightarrow> bool" where
  "isNaN v = (case v of None \<Rightarrow> True | Some NaN \<Rightarrow> True | Some (Num _) \<Rightarrow> False)"

text \<open>\<^verbatim>\<open>a += b\<close> on numbers.\<close>

fun num_add :: "number option \<Rightarrow> int \<Rightarrow> number" where
  "num_add (Some (Num a)) b = Num (a + b)"
| "num_add _ b = NaN"

text \<open>The decimal text of a number, as a template literal prints it.\<close>

fun showNat :: "nat \<Rightarrow> string" where
  "showNat n =
     (if n < 10 then [char_of (48 + n)]
      else showNat (n div 10) @ [char_of (48 + n mod 10)])"

declare showNat.simps [simp del]

definition showNum :: "number \<Rightarrow> string" where
  "showNum v =
     (case v of
        NaN \<Rightarrow> ''NaN''
      | Num i \<Rightarrow> (if i < 0 then ''-'' @ showNat (nat (- i)) else showNat (nat i)))"

subsection \<open>Small string functions of the platform\<close>

text \<open>\<^verbatim>\<open>s.split(c)\<close>, \<^verbatim>\<open>xs.slice(-2)\<close>, \<^verbatim>\<open>xs.join(sep)\<close> and \<^verbatim>\<open>s.toUpperCase()\<close>
  (on the ASCII letters of an HTTP method token).\<close>

fun split_str :: "char \<Rightarrow> string \<Rightarrow> string list" where
  "split_str c [] = [[]]"
| "split_str c (x # xs) =
     (if x = c then [] # split_str c xs
      else (case split_str c xs of [] \<Rightarrow> [[x]] | y # ys \<Rightarrow> (x # y) # ys))"

definition slice_last2 :: "'a list \<Rightarrow> 'a list" where
  "slice_last2 xs = drop (length xs - 2) xs"

fun join :: "string \<Rightarrow> string list \<Rightarrow> string" where
  "join sep [] = []"
| "join sep [x] = x"
| "join sep (x # y # ys) = x @ sep @ join sep (y # ys)"

definition toUpperCase :: "string \<Rightarrow> string" where
  "toUpperCase s =
     map (\<lambda>c. let n = (of_char c :: nat) in
                if 97 \<le> n \<and> n \<le> 122 then char_of (n - 32) else c) s"

definition startsWith :: "string \<Rightarrow> string \<Rightarrow> bool" where
  "startsWith s p = (take (length p) s = p)"

section \<open>Request options\<close>

text \<open>
  A WHATWG \<^verbatim>\<open>URL\<close> object. All its properties are strings; \<^verbatim>\<open>port\<close> is the empty
  string (\<open>None\<close>) or the decimal digits of a port number (\<open>Some n\<close>).
\<close>

record URL =
  url_protocol :: string
  url_hostname :: string
  url_hash :: string
  url_search :: string
  url_pathname :: string
  url_href :: string
  url_port :: "nat option"
  url_username :: string
  url_password :: string

text \<open>A port option is a number or a string.\<close>

datatype port_value = PortNum number | PortStr string

text \<open>
  The options object of \<^verbatim>\<open>http.request\<close>, with the properties the program reads or
  writes. A property is \<open>None\<close> when it is absent or \<^verbatim>\<open>undefined\<close>.
\<close>

record options =
  opt_protocol :: "string option"
  opt_hostname :: "string option"
  opt_host :: "string option"
  opt_port :: "port_value option"
  opt_defaultPort :: "port_value option"
  opt_path :: "string option"
  opt_href :: "string option"
  opt_method :: "string option"
  opt_hash :: "string option"
  opt_search :: "string option"
  opt_pathname :: "string option"
  opt_auth :: "string option"

definition empty_options :: options where
  "empty_options =
     \<lparr>opt_protocol = None, opt_hostname = None, opt_host = None, opt_port = None,
      opt_defaultPort = None, opt_path = None, opt_href = None, opt_method = None,
      opt_hash = None, opt_search = None, opt_pathname = None, opt_auth = None\<rparr>"

text \<open>\<^verbatim>\<open>urlToOptions(url)\<close>. \<^verbatim>\<open>s.slice(1, -1)\<close> drops the first and the last character.\<close>

definition urlToOptions :: "URL \<Rightarrow> options" where
  "urlToOptions u =
     empty_options
       \<lparr>opt_protocol := Some (url_protocol u),
        opt_hostname :=
          Some (if startsWith (url_hostname u) ''[''
                then butlast (tl (url_hostname u)) else url_hostname u),
        opt_hash := Some (url_hash u),
        opt_search := Some (url_search u),
        opt_pathname := Some (url_pathname u),
        opt_path := Some (url_pathname u @ url_search u),
        opt_href := Some (url_href u),
        opt_port := map_option (\<lambda>n. PortNum (Num (int n))) (url_port u),
        opt_auth :=
          (if url_username u \<noteq> [] \<or> url_password u \<noteq> []
           then Some (url_username u @ '':'' @ url_password u) else None)\<rparr>"

text \<open>The first argument of \<^verbatim>\<open>http.request\<close> and the second one.\<close>

datatype input = InString string | InURL URL | InOptions options | InUndefined

datatype arg2 = ArgUndefined | ArgFunction | ArgOptions options

datatype js_error = TypeError

text \<open>
  \<^verbatim>\<open>Object.assign(target, source)\<close>: every property of the source overwrites the
  target's. A property that the source has with the value \<^verbatim>\<open>undefined\<close> counts as
  absent here.
\<close>

definition pick :: "'a option \<Rightarrow> 'a option \<Rightarrow> 'a option" where
  "pick later earlier = (case later of None \<Rightarrow> earlier | Some v \<Rightarrow> Some v)"

definition assign :: "options \<Rightarrow> options \<Rightarrow> options" where
  "assign target source =
     \<lparr>opt_protocol = pick (opt_protocol source) (opt_protocol target),
      opt_hostname = pick (opt_hostname source) (opt_hostname target),
      opt_host = pick (opt_host source) (opt_host target),
      opt_port = pick (opt_port source) (opt_port target),
      opt_defaultPort = pick (opt_defaultPort source) (opt_defaultPort target),
      opt_path = pick (opt_path source) (opt_path target),
      opt_href = pick (opt_href source) (opt_href target),
      opt_method = pick (opt_method source) (opt_method target),
      opt_hash = pick (opt_hash source) (opt_hash target),
      opt_search = pick (opt_search source) (opt_search target),
      opt_pathname = pick (opt_pathname source) (opt_pathname target),
      opt_auth = pick (opt_auth source) (opt_auth target)\<rparr>"

text \<open>
  \<^verbatim>\<open>httpOptions(input, options)\<close>. The constructor \<^verbatim>\<open>new URL(urlStr)\<close> belongs to the
  platform: it is the parameter \<open>newURL\<close>, \<open>None\<close> where it throws. In the third branch
  the second argument is replaced by the first.
\<close>

definition httpOptions ::
  "(string \<Rightarrow> URL option) \<Rightarrow> input \<Rightarrow> arg2 \<Rightarrow> js_error + options" where
  "httpOptions newURL inp opts =
     (case inp of
        InString urlStr \<Rightarrow>
          (case newURL urlStr of
             None \<Rightarrow> Inl TypeError
           | Some u \<Rightarrow>
               (case opts of
                  ArgFunction \<Rightarrow> Inr (urlToOptions u)
                | ArgUndefined \<Rightarrow> Inr (urlToOptions u)
                | ArgOptions ov \<Rightarrow> Inr (assign (urlToOptions u) ov)))
      | InURL u \<Rightarrow>
          (case opts of
             ArgFunction \<Rightarrow> Inr (urlToOptions u)
           | ArgUndefined \<Rightarrow> Inr (urlToOptions u)
           | ArgOptions ov \<Rightarrow> Inr (assign (urlToOptions u) ov))
      | InOptions ov \<Rightarrow> Inr (assign ov ov)
      | InUndefined \<Rightarrow> Inr empty_options)"

section \<open>Requests, responses and the metrics record\<close>

text \<open>What \<^verbatim>\<open>request.getHeader(name)\<close> returns.\<close>

datatype header_value = HUndefined | HStr string | HNum int | HArr "string list"

text \<open>The request handle that the original \<^verbatim>\<open>http.request\<close> returns.\<close>

record request =
  getHeader :: "string \<Rightarrow> header_value"
  req_method :: "string option"

text \<open>The response handle (\<^verbatim>\<open>IncomingMessage\<close>) of the \<^verbatim>\<open>response\<close> event.\<close>

record response =
  statusCode :: int
  statusMessage :: string
  headers :: "string \<Rightarrow> string option"

text \<open>An \<^verbatim>\<open>Error\<close> object: \<^verbatim>\<open>err.message\<close> and \<^verbatim>\<open>err.code\<close>.\<close>

datatype error_code = CodeStr string | CodeNum int

record err =
  err_message :: "string option"
  err_code :: "error_code option"

text \<open>
  The object handed to the metrics callback. A field is \<open>None\<close> when the property is
  absent or \<^verbatim>\<open>undefined\<close> (the specification's "unknown").
\<close>

record metrics =
  protocol :: "string option"
  host :: "string option"
  port :: "number option"
  path :: "string option"
  url :: "string option"
  "method" :: "string option"
  domain :: "string option"
  responseCode :: "int option"
  responseStatus :: "string option"
  contentType :: "string option"
  localIPAddress :: "string option"
  serverIPAddress :: "string option"
  duration :: "rat option"
  durationBlocked :: "rat option"
  durationDNS :: "rat option"
  durationConnect :: "rat option"
  durationSSL :: "rat option"
  durationSend :: "rat option"
  durationWait :: "rat option"
  durationReceive :: "rat option"
  requestBodySize :: "number option"
  responseBodySize :: "number option"
  serverRequestId :: "string option"
  error :: "bool option"
  errorMessage :: "string option"
  errorCode :: "error_code option"

definition no_metrics :: metrics where
  "no_metrics =
     \<lparr>protocol = None, host = None, port = None, path = None, url = None, method = None,
      domain = None, responseCode = None, responseStatus = None, contentType = None,
      localIPAddress = None, serverIPAddress = None, duration = None,
      durationBlocked = None, durationDNS = None, durationConnect = None,
      durationSSL = None, durationSend = None, durationWait = None,
      durationReceive = None, requestBodySize = None, responseBodySize = None,
      serverRequestId = None, error = None, errorMessage = None, errorCode = None\<rparr>"

text \<open>The object spread \<^verbatim>\<open>{...a, ...b}\<close>: the properties of \<open>b\<close> are written over \<open>a\<close>.\<close>

definition spread :: "metrics \<Rightarrow> metrics \<Rightarrow> metrics" where
  "spread a b =
     \<lparr>protocol = pick (protocol b) (protocol a),
      host = pick (host b) (host a),
      port = pick (port b) (port a),
      path = pick (path b) (path a),
      url = pick (url b) (url a),
      method = pick (method b) (method a),
      domain = pick (domain b) (domain a),
      responseCode = pick (responseCode b) (responseCode a),
      responseStatus = pick (responseStatus b) (responseStatus a),
      contentType = pick (contentType b) (contentType a),
      localIPAddress = pick (localIPAddress b) (localIPAddress a),
      serverIPAddress = pick (serverIPAddress b) (serverIPAddress a),
      duration = pick (duration b) (duration a),
      durationBlocked = pick (durationBlocked b) (durationBlocked a),
      durationDNS = pick (durationDNS b) (durationDNS a),
      durationConnect = pick (durationConnect b) (durationConnect a),
      durationSSL = pick (durationSSL b) (durationSSL a),
      durationSend = pick (durationSend b) (durationSend a),
      durationWait = pick (durationWait b) (durationWait a),
      durationReceive = pick (durationReceive b) (durationReceive a),
      requestBodySize = pick (requestBodySize b) (requestBodySize a),
      responseBodySize = pick (responseBodySize b) (responseBodySize a),
      serverRequestId = pick (serverRequestId b) (serverRequestId a),
      error = pick (error b) (error a),
      errorMessage = pick (errorMessage b) (errorMessage a),
      errorCode = pick (errorCode b) (errorCode a)\<rparr>"

section \<open>The per-request context\<close>

text \<open>\<^verbatim>\<open>this.timings\<close>: one slot for each milestone.\<close>

record timings =
  startAt :: "hrtime option"
  socketAt :: "hrtime option"
  dnsLookupAt :: "hrtime option"
  tcpConnectionAt :: "hrtime option"
  tlsHandshakeAt :: "hrtime option"
  sentRequestAt :: "hrtime option"
  firstByteAt :: "hrtime option"
  endAt :: "hrtime option"
  errorAt :: "hrtime option"

text \<open>
  A function value is known by its identity. \<open>NoOp\<close> is the arrow function
  \<^verbatim>\<open>() => {}\<close> of \<^verbatim>\<open>withMetricsCallback\<close>.
\<close>

datatype callback = NoOp | UserFn nat

record args =
  arg_input :: input
  arg_options :: arg2
  arg_callback :: "nat option"

text \<open>A timer made by \<^verbatim>\<open>setTimeout\<close>; its handle is its position in the list of timers.\<close>

record timer =
  armed :: bool
  waitTime :: int

text \<open>
  One call of the metrics callback: the function called, its argument and, for claims
  about the order of effects, the timers and the timer handle of the context at the
  moment of the call.
\<close>

record call =
  callee :: callback
  arg :: metrics
  timersAtCall :: "timer list"
  handleAtCall :: "nat option"

text \<open>
  The fields of a \<^verbatim>\<open>HttpRequestMetrics\<close> object. \<^verbatim>\<open>metricsTriggered\<close> is
  \<^verbatim>\<open>undefined\<close> (falsy, \<open>False\<close>) until it is set to \<^verbatim>\<open>true\<close>.
\<close>

record HttpRequestMetrics =
  timings :: timings
  requestFn :: "(input \<Rightarrow> arg2 \<Rightarrow> nat option \<Rightarrow> js_error + request) option"
  args :: "args option"
  metricsCallback :: "callback option"
  this_httpOptions :: "options option"
  this_request :: "request option"
  this_requestBodySize :: "number option"
  responseSize :: "number option"
  this_serverRequestId :: "string option"
  this_response :: "response option"
  localAddress :: "string option"
  remoteAddress :: "string option"
  noResponseEndTimer :: "nat option"
  metricsTriggered :: bool

text \<open>
  The object together with what the platform holds for it: the listeners the object
  has registered, the timers, and the effects so far (the calls of the metrics callback
  and the wait times printed by \<^verbatim>\<open>console.log\<close>). \<open>firstByteOnce\<close> counts the
  one-shot listeners for the socket's first \<^verbatim>\<open>data\<close> that have not run yet.
\<close>

record world = HttpRequestMetrics +
  writeWrapped :: bool
  requestListeners :: bool
  errorOnce :: bool
  socketListeners :: bool
  firstByteOnce :: nat
  dataCounting :: bool
  endListeners :: bool
  timers :: "timer list"
  calls :: "call list"
  console :: "int list"

subsection \<open>Construction and configuration\<close>

text \<open>The constructor reads the clock once, for \<^verbatim>\<open>startAt\<close>.\<close>

definition constructor :: "hrtime \<Rightarrow> world" where
  "constructor now =
     \<lparr>timings =
        \<lparr>startAt = Some now, socketAt = None, dnsLookupAt = None, tcpConnectionAt = None,
         tlsHandshakeAt = None, sentRequestAt = None, firstByteAt = None, endAt = None,
         errorAt = None\<rparr>,
      requestFn = None, args = None, metricsCallback = None, this_httpOptions = None,
      this_request = None, this_requestBodySize = None, responseSize = None,
      this_serverRequestId = None, this_response = None, localAddress = None,
      remoteAddress = None, noResponseEndTimer = None, metricsTriggered = False,
      writeWrapped = False, requestListeners = False, errorOnce = False,
      socketListeners = False, firstByteOnce = 0, dataCounting = False,
      endListeners = False, timers = [], calls = [], console = []\<rparr>"

definition withRequestFn ::
  "(input \<Rightarrow> arg2 \<Rightarrow> nat option \<Rightarrow> js_error + request) \<Rightarrow> world \<Rightarrow> world" where
  "withRequestFn f w = w\<lparr>requestFn := Some f\<rparr>"

definition withArgs :: "input \<Rightarrow> arg2 \<Rightarrow> nat option \<Rightarrow> world \<Rightarrow> world" where
  "withArgs inp opts cb w =
     w\<lparr>args := Some \<lparr>arg_input = inp, arg_options = opts, arg_callback = cb\<rparr>\<rparr>"

text \<open>\<^verbatim>\<open>this.metricsCallback = cb || (() => {})\<close>.\<close>

definition withMetricsCallback :: "callback option \<Rightarrow> world \<Rightarrow> world" where
  "withMetricsCallback cb w =
     w\<lparr>metricsCallback := Some (case cb of None \<Rightarrow> NoOp | Some f \<Rightarrow> f)\<rparr>"

subsection \<open>Self-exclusion\<close>

definition truthy_header :: "header_value \<Rightarrow> bool" where
  "truthy_header v =
     (case v of
        HUndefined \<Rightarrow> False
      | HStr s \<Rightarrow> s \<noteq> []
      | HNum n \<Rightarrow> n \<noteq> 0
      | HArr xs \<Rightarrow> True)"

text \<open>
  \<^verbatim>\<open>ignoreRequest()\<close>. The constant \<^verbatim>\<open>sendQueue.USER_AGENT\<close> is defined in a module
  outside the source at hand: it is the parameter \<open>USER_AGENT\<close>.
\<close>

definition ignoreRequest :: "string \<Rightarrow> world \<Rightarrow> js_error + bool" where
  "ignoreRequest USER_AGENT w =
     (case this_request w of
        None \<Rightarrow> Inl TypeError
      | Some req \<Rightarrow>
          Inr (let ua = getHeader req ''User-Agent'' in
               if truthy_header ua then
                 (let ua1 = (case ua of HArr (x # xs) \<Rightarrow> HStr x | _ \<Rightarrow> ua)
                  in ua1 = HStr USER_AGENT)
               else False))"

subsection \<open>Listeners\<close>

text \<open>
  \<^verbatim>\<open>trackRequestBody\<close> wraps \<^verbatim>\<open>request.write\<close>; \<open>write_wrapper\<close> is the counting part
  of the wrapper, given the length of the chunk (\<open>None\<close> for a missing chunk).
\<close>

definition trackRequestBody :: "world \<Rightarrow> world" where
  "trackRequestBody w = w\<lparr>this_requestBodySize := Some (Num 0), writeWrapped := True\<rparr>"

definition write_wrapper :: "nat option \<Rightarrow> world \<Rightarrow> world" where
  "write_wrapper chunk w =
     (case chunk of
        None \<Rightarrow> w
      | Some n \<Rightarrow>
          if n \<noteq> 0
          then w\<lparr>this_requestBodySize := Some (num_add (this_requestBodySize w) (int n))\<rparr>
          else w)"

definition onRequest :: "world \<Rightarrow> world" where
  "onRequest w = (trackRequestBody w)\<lparr>requestListeners := True, errorOnce := True\<rparr>"

definition onSocket :: "hrtime \<Rightarrow> world \<Rightarrow> world" where
  "onSocket now w =
     w\<lparr>timings := (timings w)\<lparr>socketAt := Some now\<rparr>,
       socketListeners := True,
       firstByteOnce := Suc (firstByteOnce w)\<rparr>"

definition on_lookup :: "hrtime \<Rightarrow> world \<Rightarrow> world" where
  "on_lookup now w = w\<lparr>timings := (timings w)\<lparr>dnsLookupAt := Some now\<rparr>\<rparr>"

text \<open>The \<^verbatim>\<open>connect\<close> listener; \<^verbatim>\<open>delete this.timings.sentRequestAt\<close> empties the slot.\<close>

definition on_connect :: "hrtime \<Rightarrow> string option \<Rightarrow> string option \<Rightarrow> world \<Rightarrow> world" where
  "on_connect now socketLocal socketRemote w =
     w\<lparr>timings := (timings w)\<lparr>tcpConnectionAt := Some now, sentRequestAt := None\<rparr>,
       localAddress := socketLocal,
       remoteAddress := socketRemote\<rparr>"

definition on_secureConnect :: "hrtime \<Rightarrow> world \<Rightarrow> world" where
  "on_secureConnect now w = w\<lparr>timings := (timings w)\<lparr>tlsHandshakeAt := Some now\<rparr>\<rparr>"

definition on_socket_data :: "hrtime \<Rightarrow> world \<Rightarrow> world" where
  "on_socket_data now w =
     w\<lparr>timings := (timings w)\<lparr>firstByteAt := Some now\<rparr>,
       firstByteOnce := firstByteOnce w - 1\<rparr>"

definition on_finish :: "hrtime \<Rightarrow> world \<Rightarrow> world" where
  "on_finish now w = w\<lparr>timings := (timings w)\<lparr>sentRequestAt := Some now\<rparr>\<rparr>"

definition on_response_data :: "nat \<Rightarrow> world \<Rightarrow> world" where
  "on_response_data chunkLength w =
     w\<lparr>responseSize := Some (num_add (responseSize w) (int chunkLength))\<rparr>"

subsection \<open>Timers\<close>

definition isArmed :: "nat \<Rightarrow> timer list \<Rightarrow> bool" where
  "isArmed h ts = (h < length ts \<and> armed (ts ! h))"

definition disarm :: "nat \<Rightarrow> timer list \<Rightarrow> timer list" where
  "disarm h ts = (if h < length ts then ts[h := (ts ! h)\<lparr>armed := False\<rparr>] else ts)"

definition clearTimeout :: "nat \<Rightarrow> world \<Rightarrow> world" where
  "clearTimeout h w = w\<lparr>timers := disarm h (timers w)\<rparr>"

text \<open>
  \<^verbatim>\<open>startNoResponseEndTimer()\<close>, given \<^verbatim>\<open>process.env.__OW_DEADLINE\<close> (\<open>None\<close> when unset,
  else its number) and \<^verbatim>\<open>Date.now()\<close>.
\<close>

definition startNoResponseEndTimer :: "int option \<Rightarrow> int \<Rightarrow> world \<Rightarrow> world" where
  "startNoResponseEndTimer deadline dateNow w =
     (let wait = (case deadline of
                    Some d \<Rightarrow> d - dateNow - 10000
                  | None \<Rightarrow> 5 * 60 * 1000)
      in w\<lparr>timers := timers w @ [\<lparr>armed = True, waitTime = wait\<rparr>],
           noResponseEndTimer := Some (length (timers w))\<rparr>)"

subsection \<open>The metrics of a request\<close>

text \<open>\<^verbatim>\<open>a || d\<close> with a string default, and the truthiness of a port option.\<close>

definition or_else :: "string option \<Rightarrow> string \<Rightarrow> string" where
  "or_else a d = (case a of None \<Rightarrow> d | Some s \<Rightarrow> if s \<noteq> [] then s else d)"

definition truthy_port :: "port_value option \<Rightarrow> bool" where
  "truthy_port v =
     (case v of
        None \<Rightarrow> False
      | Some (PortNum NaN) \<Rightarrow> False
      | Some (PortNum (Num n)) \<Rightarrow> n \<noteq> 0
      | Some (PortStr s) \<Rightarrow> s \<noteq> [])"

text \<open>
  \<^verbatim>\<open>getRequestMetrics()\<close>: \<open>requestMetrics\<close> is its body, given \<^verbatim>\<open>this.httpOptions\<close> and
  \<^verbatim>\<open>this.request\<close>; reading a property of either when it is \<^verbatim>\<open>undefined\<close> is a
  \<^verbatim>\<open>TypeError\<close>.
\<close>

definition requestMetrics :: "options \<Rightarrow> request \<Rightarrow> metrics" where
  "requestMetrics opts req =
     (let protocol1 =
            (if truthy_str (opt_protocol opts) then or_else (opt_protocol opts) []
             else if truthy_str (opt_href opts)
                     \<and> startsWith (or_else (opt_href opts) []) ''https:''
                  then ''https:'' else ''http:'');
          host1 = or_else (or_str (opt_hostname opts) (opt_host opts)) ''localhost'';
          port0 =
            (if truthy_port (opt_port opts) then opt_port opts
             else if truthy_port (opt_defaultPort opts) then opt_defaultPort opts
             else Some (PortNum (Num
                    (if \<not> truthy_str (opt_protocol opts)
                        \<or> opt_protocol opts = Some ''http:''
                     then 80 else 443))));
          port1 =
            (case port0 of
               Some (PortStr s) \<Rightarrow> parseInt s None
             | Some (PortNum n) \<Rightarrow> n
             | None \<Rightarrow> NaN);
          portForUrl =
            (if (port1 = Num 80 \<and> protocol1 = ''http:'')
                \<or> (port1 = Num 443 \<and> protocol1 = ''https:'')
             then [] else '':'' @ showNum port1);
          path1 = or_else (opt_path opts) ''/''
      in no_metrics
           \<lparr>protocol := Some protocol1,
            host := Some host1,
            port := Some port1,
            path := Some path1,
            url := Some (protocol1 @ ''//'' @ host1 @ portForUrl @ path1),
            method := Some (toUpperCase (or_else (req_method req) ''GET'')),
            domain := Some (join ''.'' (slice_last2 (split_str (CHR ''.'') host1)))\<rparr>)"

definition getRequestMetrics :: "world \<Rightarrow> js_error + metrics" where
  "getRequestMetrics w =
     (case this_httpOptions w of
        None \<Rightarrow> Inl TypeError
      | Some opts \<Rightarrow>
          (case this_request w of
             None \<Rightarrow> Inl TypeError
           | Some req \<Rightarrow> Inr (requestMetrics opts req)))"

definition getResponseMetrics :: "world \<Rightarrow> metrics" where
  "getResponseMetrics w =
     (case this_response w of
        None \<Rightarrow> no_metrics
      | Some res \<Rightarrow>
          no_metrics
            \<lparr>responseCode := Some (statusCode res),
             responseStatus := Some (statusMessage res),
             contentType := headers res ''content-type'',
             localIPAddress := localAddress w,
             serverIPAddress := remoteAddress w\<rparr>)"

text \<open>\<^verbatim>\<open>a || b\<close> on timestamp slots: a set slot is an array, hence truthy.\<close>

definition or_time :: "hrtime option \<Rightarrow> hrtime option \<Rightarrow> hrtime option" where
  "or_time a b = (case a of None \<Rightarrow> b | Some x \<Rightarrow> Some x)"

definition getTimingMetrics :: "world \<Rightarrow> metrics" where
  "getTimingMetrics w =
     (let t = timings w in
      no_metrics
        \<lparr>duration := getDurationInMs (startAt t) (or_time (errorAt t) (endAt t)),
         durationBlocked := getDurationInMs (startAt t) (socketAt t),
         durationDNS := getDurationInMs (socketAt t) (dnsLookupAt t),
         durationConnect :=
           getDurationInMs (or_time (dnsLookupAt t) (socketAt t)) (tcpConnectionAt t),
         durationSSL := getDurationInMs (tcpConnectionAt t) (tlsHandshakeAt t),
         durationSend :=
           getDurationInMs (or_time (tlsHandshakeAt t) (tcpConnectionAt t)) (sentRequestAt t),
         durationWait :=
           getDurationInMs
             (or_time (or_time (sentRequestAt t) (tlsHandshakeAt t)) (tcpConnectionAt t))
             (firstByteAt t),
         durationReceive := getDurationInMs (firstByteAt t) (endAt t)\<rparr>)"

text \<open>
  \<^verbatim>\<open>triggerMetrics(extraMetrics)\<close>. The timer is cleared first (\<open>cancelTimer\<close> is that
  first statement). The callback belongs to the embedding program: its call is
  recorded, and here it is taken to return (a callback that may throw has a section of
  its own below). Calling a callback that was never configured is a \<^verbatim>\<open>TypeError\<close>.
\<close>

definition cancelTimer :: "world \<Rightarrow> world" where
  "cancelTimer w =
     (case noResponseEndTimer w of
        Some h \<Rightarrow> clearTimeout h w
      | None \<Rightarrow> w)"

definition triggerMetrics :: "metrics \<Rightarrow> world \<Rightarrow> js_error + world" where
  "triggerMetrics extraMetrics w =
     (let w1 = cancelTimer w
      in if \<not> metricsTriggered w1 then
           (case getRequestMetrics w1 of
              Inl e \<Rightarrow> Inl e
            | Inr rm \<Rightarrow>
                (let m = spread (spread (spread rm (getResponseMetrics w1))
                                   (getTimingMetrics w1)) extraMetrics
                 in case metricsCallback w1 of
                      None \<Rightarrow> Inl TypeError
                    | Some cb \<Rightarrow>
                        Inr (w1\<lparr>calls := calls w1 @
                                   [\<lparr>callee = cb, arg = m, timersAtCall = timers w1,
                                     handleAtCall = noResponseEndTimer w1\<rparr>],
                                 metricsTriggered := True\<rparr>)))
         else Inr w1)"

definition onEnd :: "hrtime \<Rightarrow> world \<Rightarrow> js_error + world" where
  "onEnd now w =
     (let w1 = w\<lparr>timings := (timings w)\<lparr>endAt := Some now\<rparr>\<rparr>
      in triggerMetrics
           (no_metrics
              \<lparr>requestBodySize := this_requestBodySize w1,
               responseBodySize := responseSize w1,
               serverRequestId := this_serverRequestId w1\<rparr>) w1)"

definition onError :: "hrtime \<Rightarrow> err \<Rightarrow> world \<Rightarrow> js_error + world" where
  "onError now e w =
     (let w1 = w\<lparr>timings := (timings w)\<lparr>errorAt := Some now\<rparr>\<rparr>
      in triggerMetrics
           (no_metrics
              \<lparr>error := Some True,
               errorMessage := err_message e,
               errorCode := err_code e\<rparr>) w1)"

definition onTimeout :: "hrtime \<Rightarrow> world \<Rightarrow> js_error + world" where
  "onTimeout now w =
     (let w1 = w\<lparr>timings := (timings w)\<lparr>errorAt := Some now\<rparr>\<rparr>
      in triggerMetrics
           (no_metrics
              \<lparr>error := Some True,
               errorMessage := Some ''Connection timed out'',
               errorCode := Some (CodeNum 110)\<rparr>) w1)"

text \<open>
  \<^verbatim>\<open>onResponse(response)\<close>: the size is seeded from \<^verbatim>\<open>content-length\<close>, or a counting
  listener is registered; the \<^verbatim>\<open>end\<close> listener is registered and the timer started.
\<close>

definition onResponse :: "response \<Rightarrow> int option \<Rightarrow> int \<Rightarrow> world \<Rightarrow> world" where
  "onResponse res deadline dateNow w =
     (let w1 = w\<lparr>this_response := Some res,
                 this_serverRequestId :=
                   or_str (headers res ''x-request-id'') (headers res ''x-correlation-id'')\<rparr>;
          size1 = (case headers res ''content-length'' of
                     None \<Rightarrow> None
                   | Some v \<Rightarrow> Some (parseInt v (Some 10)));
          w2 = (if isNaN size1
                then w1\<lparr>responseSize := Some (Num 0), dataCounting := True\<rparr>
                else w1\<lparr>responseSize := size1\<rparr>);
          w3 = w2\<lparr>endListeners := True\<rparr>
      in startNoResponseEndTimer deadline dateNow w3)"

text \<open>The callback of the timer with handle \<open>h\<close>: it prints the wait time and ends.\<close>

definition timer_callback :: "nat \<Rightarrow> hrtime \<Rightarrow> world \<Rightarrow> js_error + world" where
  "timer_callback h now w =
     onEnd now (w\<lparr>console := console w @ [waitTime (timers w ! h)],
                  timers := disarm h (timers w)\<rparr>)"

section \<open>The life of a request\<close>

text \<open>
  An event is one run of a listener by the platform, with the value of the clock that
  the listener reads: a write through the wrapped \<^verbatim>\<open>request.write\<close>, the events of the
  request (\<^verbatim>\<open>socket\<close>, \<^verbatim>\<open>finish\<close>, \<^verbatim>\<open>response\<close>, \<^verbatim>\<open>error\<close>, \<^verbatim>\<open>timeout\<close>), of the socket
  (\<^verbatim>\<open>lookup\<close>, \<^verbatim>\<open>connect\<close>, \<^verbatim>\<open>secureConnect\<close>, \<^verbatim>\<open>data\<close>), of the response (\<^verbatim>\<open>data\<close>,
  \<^verbatim>\<open>end\<close>), and the firing of a timer.
\<close>

datatype event =
    EvWrite "nat option"
  | EvSocket hrtime
  | EvLookup hrtime
  | EvConnect hrtime "string option" "string option"
  | EvSecureConnect hrtime
  | EvSocketData hrtime
  | EvFinish hrtime
  | EvResponse response "int option" int
  | EvResponseData nat
  | EvResponseEnd hrtime
  | EvError hrtime err
  | EvTimeout hrtime
  | EvTimerFire nat hrtime

text \<open>
  An event runs the listener only if the object has registered one; a one-shot listener
  is removed when it runs, and a timer fires only while it is armed.
\<close>

fun step :: "event \<Rightarrow> world \<Rightarrow> js_error + world" where
  "step (EvWrite chunk) w = Inr (if writeWrapped w then write_wrapper chunk w else w)"
| "step (EvSocket now) w = Inr (if requestListeners w then onSocket now w else w)"
| "step (EvLookup now) w = Inr (if socketListeners w then on_lookup now w else w)"
| "step (EvConnect now la ra) w =
     Inr (if socketListeners w then on_connect now la ra w else w)"
| "step (EvSecureConnect now) w =
     Inr (if socketListeners w then on_secureConnect now w else w)"
| "step (EvSocketData now) w =
     Inr (if 0 < firstByteOnce w then on_socket_data now w else w)"
| "step (EvFinish now) w = Inr (if requestListeners w then on_finish now w else w)"
| "step (EvResponse res deadline dateNow) w =
     Inr (if requestListeners w then onResponse res deadline dateNow w else w)"
| "step (EvResponseData n) w = Inr (if dataCounting w then on_response_data n w else w)"
| "step (EvResponseEnd now) w = (if endListeners w then onEnd now w else Inr w)"
| "step (EvError now e) w =
     (if errorOnce w then onError now e (w\<lparr>errorOnce := False\<rparr>) else Inr w)"
| "step (EvTimeout now) w = (if requestListeners w then onTimeout now w else Inr w)"
| "step (EvTimerFire h now) w =
     (if isArmed h (timers w) then timer_callback h now w else Inr w)"

text \<open>A sequence of events; an exception thrown by a listener ends the run.\<close>

fun run :: "event list \<Rightarrow> world \<Rightarrow> js_error + world" where
  "run [] w = Inr w"
| "run (e # es) w = (case step e w of Inl x \<Rightarrow> Inl x | Inr w1 \<Rightarrow> run es w1)"

subsection \<open>The instrumented entry point\<close>

text \<open>
  \<^verbatim>\<open>getRequest()\<close> returns the request handle of the original function, and the object
  after the listeners have or have not been attached.
\<close>

definition getRequest ::
  "(string \<Rightarrow> URL option) \<Rightarrow> string \<Rightarrow> world \<Rightarrow> js_error + (request \<times> world)" where
  "getRequest newURL USER_AGENT w =
     (case args w of
        None \<Rightarrow> Inl TypeError
      | Some a \<Rightarrow>
          (case httpOptions newURL (arg_input a) (arg_options a) of
             Inl e \<Rightarrow> Inl e
           | Inr ho \<Rightarrow>
               (let w1 = w\<lparr>this_httpOptions := Some ho\<rparr> in
                case requestFn w1 of
                  None \<Rightarrow> Inl TypeError
                | Some f \<Rightarrow>
                    (case f (arg_input a) (arg_options a) (arg_callback a) of
                       Inl e \<Rightarrow> Inl e
                     | Inr req \<Rightarrow>
                         (let w2 = w1\<lparr>this_request := Some req\<rparr> in
                          case ignoreRequest USER_AGENT w2 of
                            Inl e \<Rightarrow> Inl e
                          | Inr ignored \<Rightarrow>
                              Inr (req, if \<not> ignored then onRequest w2 else w2))))))"

text \<open>
  The function that \<^verbatim>\<open>requestWithMetrics(originalRequestFn, obj, attributes)\<close> returns,
  applied to the arguments of a call; \<open>now\<close> is the clock at construction.
\<close>

definition requestWithMetrics ::
  "(string \<Rightarrow> URL option) \<Rightarrow> string \<Rightarrow> hrtime \<Rightarrow>
   (input \<Rightarrow> arg2 \<Rightarrow> nat option \<Rightarrow> js_error + request) \<Rightarrow> callback option \<Rightarrow>
   input \<Rightarrow> arg2 \<Rightarrow> nat option \<Rightarrow> js_error + (request \<times> world)" where
  "requestWithMetrics newURL USER_AGENT now originalRequestFn attributes_metricsCallback
       inp opts cb =
     getRequest newURL USER_AGENT
       (withMetricsCallback attributes_metricsCallback
          (withArgs inp opts cb
             (withRequestFn originalRequestFn (constructor now))))"

section \<open>A callback that may throw\<close>













section \<open>Notions used in the statements\<close>

text \<open>
  The three properties that \<^verbatim>\<open>getRequest\<close> and \<^verbatim>\<open>withMetricsCallback\<close> set before any
  listener can run.
\<close>

definition configured :: "world \<Rightarrow> bool" where
  "configured w =
     (metricsCallback w \<noteq> None \<and> this_httpOptions w \<noteq> None \<and> this_request w \<noteq> None)"

text \<open>
  What holds of the object when \<^verbatim>\<open>getRequest()\<close> returns: nothing has been reported,
  no timer exists and no listener of a socket or of a response is registered. The
  listeners of the request are all registered (\<open>attached\<close>) or none is (\<open>detached\<close>).
\<close>

definition fresh :: "world \<Rightarrow> bool" where
  "fresh w =
     (configured w \<and> \<not> metricsTriggered w \<and> calls w = [] \<and> timers w = []
      \<and> noResponseEndTimer w = None \<and> \<not> dataCounting w \<and> \<not> endListeners w
      \<and> \<not> socketListeners w \<and> firstByteOnce w = 0
      \<and> endAt (timings w) = None \<and> errorAt (timings w) = None)"

definition attached :: "world \<Rightarrow> bool" where
  "attached w = (requestListeners w \<and> errorOnce w \<and> writeWrapped w)"

definition detached :: "world \<Rightarrow> bool" where
  "detached w = (\<not> requestListeners w \<and> \<not> errorOnce w \<and> \<not> writeWrapped w)"

text \<open>The call that \<open>triggerMetrics\<close> makes when it reports.\<close>

definition the_call :: "metrics \<Rightarrow> world \<Rightarrow> call" where
  "the_call x w =
     \<lparr>callee = the (metricsCallback w),
      arg = spread (spread (spread
                (requestMetrics (the (this_httpOptions w)) (the (this_request w)))
                (getResponseMetrics (cancelTimer w)))
                (getTimingMetrics (cancelTimer w))) x,
      timersAtCall = timers (cancelTimer w),
      handleAtCall = noResponseEndTimer w\<rparr>"

text \<open>
  The terminal signals (end of the response, error, timeout, the timer), and whether
  the object has a listener for an event.
\<close>

fun terminal :: "event \<Rightarrow> bool" where
  "terminal (EvResponseEnd _) = True"
| "terminal (EvError _ _) = True"
| "terminal (EvTimeout _) = True"
| "terminal (EvTimerFire _ _) = True"
| "terminal _ = False"

fun listening :: "event \<Rightarrow> world \<Rightarrow> bool" where
  "listening (EvWrite _) w = writeWrapped w"
| "listening (EvSocket _) w = requestListeners w"
| "listening (EvLookup _) w = socketListeners w"
| "listening (EvConnect _ _ _) w = socketListeners w"
| "listening (EvSecureConnect _) w = socketListeners w"
| "listening (EvSocketData _) w = (0 < firstByteOnce w)"
| "listening (EvFinish _) w = requestListeners w"
| "listening (EvResponse _ _ _) w = requestListeners w"
| "listening (EvResponseData _) w = dataCounting w"
| "listening (EvResponseEnd _) w = endListeners w"
| "listening (EvError _ _) w = errorOnce w"
| "listening (EvTimeout _) w = requestListeners w"
| "listening (EvTimerFire h _) w = isArmed h (timers w)"

fun is_response :: "event \<Rightarrow> bool" where
  "is_response (EvResponse _ _ _) = True"
| "is_response _ = False"

text \<open>The signals that write the errored slot, and those that write the ended slot.\<close>

fun error_signal :: "event \<Rightarrow> bool" where
  "error_signal (EvError _ _) = True"
| "error_signal (EvTimeout _) = True"
| "error_signal _ = False"

fun end_signal :: "event \<Rightarrow> bool" where
  "end_signal (EvResponseEnd _) = True"
| "end_signal (EvTimerFire _ _) = True"
| "end_signal _ = False"

text \<open>An event that neither is terminal nor brings a response.\<close>

definition quiet :: "event \<Rightarrow> bool" where
  "quiet e = (\<not> terminal e \<and> \<not> is_response e)"

text \<open>The bytes of the response chunks in a sequence of events.\<close>

fun chunkTotal :: "event list \<Rightarrow> int" where
  "chunkTotal [] = 0"
| "chunkTotal (EvResponseData n # es) = int n + chunkTotal es"
| "chunkTotal (_ # es) = chunkTotal es"

text \<open>The metrics objects that a run has handed to the callback, in order.\<close>

definition reported :: "js_error + world \<Rightarrow> metrics list" where
  "reported r = (case r of Inl _ \<Rightarrow> [] | Inr w \<Rightarrow> map arg (calls w))"

definition final_timings :: "js_error + world \<Rightarrow> timings option" where
  "final_timings r = (case r of Inl _ \<Rightarrow> None | Inr w \<Rightarrow> Some (timings w))"

text \<open>
  The URL in the words of the specification: scheme, host, port and path of the input,
  the default port of the scheme left out.
\<close>

definition default_port :: "string \<Rightarrow> nat" where
  "default_port proto = (if proto = ''https:'' then 443 else 80)"

definition bare_host :: "string \<Rightarrow> string" where
  "bare_host h = (if startsWith h ''['' then butlast (tl h) else h)"

definition reconstructed :: "URL \<Rightarrow> string" where
  "reconstructed u =
     url_protocol u @ ''//'' @ bare_host (url_hostname u)
       @ (case url_port u of
            None \<Rightarrow> []
          | Some p \<Rightarrow> if p = default_port (url_protocol u) then [] else '':'' @ showNat p)
       @ url_pathname u @ url_search u"

subsection \<open>Invariants of a run\<close>

text \<open>Every call so far went to the no-op function, which is the configured callback.\<close>

definition noop_inv :: "world \<Rightarrow> bool" where
  "noop_inv w =
     (configured w \<and> metricsCallback w = Some NoOp
      \<and> (\<forall>c\<in>set (calls w). callee c = NoOp))"

subsection \<open>A concrete request\<close>

text \<open>
  The request of the specification's scenario: \<^verbatim>\<open>https://example.com/api\<close>, no explicit
  port, answered with status 200 and \<^verbatim>\<open>content-length: 42\<close>.
\<close>

definition example_url :: URL where
  "example_url =
     \<lparr>url_protocol = ''https:'', url_hostname = ''example.com'', url_hash = [],
      url_search = [], url_pathname = ''/api'', url_href = ''https://example.com/api'',
      url_port = None, url_username = [], url_password = []\<rparr>"

definition example_newURL :: "string \<Rightarrow> URL option" where
  "example_newURL s = (if s = ''https://example.com/api'' then Some example_url else None)"

definition example_request :: request where
  "example_request = \<lparr>getHeader = (\<lambda>name. HUndefined), req_method = Some ''get''\<rparr>"

definition example_requestFn :: "input \<Rightarrow> arg2 \<Rightarrow> nat option \<Rightarrow> js_error + request" where
  "example_requestFn inp opts cb = Inr example_request"

definition example_response :: "string option \<Rightarrow> response" where
  "example_response contentLength =
     \<lparr>statusCode = 200, statusMessage = ''OK'',
      headers = (\<lambda>name. if name = ''content-length'' then contentLength else None)\<rparr>"

text \<open>The object after \<^verbatim>\<open>getRequest()\<close> for this request, with callback \<open>cb\<close>.\<close>

definition example_world :: "callback option \<Rightarrow> world" where
  "example_world cb =
     onRequest
       ((withMetricsCallback cb
           (withArgs (InString ''https://example.com/api'') ArgUndefined None
              (withRequestFn example_requestFn (constructor (0, 0)))))
          \<lparr>this_httpOptions := Some (urlToOptions example_url),
           this_request := Some example_request\<rparr>)"

text \<open>A request of the metrics sink itself, marked by its \<^verbatim>\<open>User-Agent\<close>.\<close>

definition sink_request :: request where
  "sink_request =
     \<lparr>getHeader = (\<lambda>name. if name = ''User-Agent'' then HStr ''sink/1.0'' else HUndefined),
      req_method = Some ''POST''\<rparr>"

definition sink_requestFn :: "input \<Rightarrow> arg2 \<Rightarrow> nat option \<Rightarrow> js_error + request" where
  "sink_requestFn inp opts cb = Inr sink_request"

subsection \<open>Further invariants\<close>

text \<open>
  No timer in a list is armed.
\<close>

definition none_armed :: "timer list \<Rightarrow> bool" where
  "none_armed ts = (\<forall>t\<in>set ts. \<not> armed t)"

text \<open>
  At every call so far the timer whose handle the object held was not armed; and: at
  most the timer that the object holds is armed, and at every call so far no timer at
  all was armed.
\<close>

definition held_inv :: "world \<Rightarrow> bool" where
  "held_inv w =
     (configured w
      \<and> (\<forall>c\<in>set (calls w). \<forall>h. handleAtCall c = Some h \<longrightarrow> \<not> isArmed h (timersAtCall c)))"

definition single_inv :: "world \<Rightarrow> bool" where
  "single_inv w =
     (configured w
      \<and> (\<forall>h. isArmed h (timers w) \<longrightarrow> noResponseEndTimer w = Some h)
      \<and> (\<forall>c\<in>set (calls w). none_armed (timersAtCall c)))"

text \<open>
  Nothing has been reported yet; and: nothing has been reported, the listeners of the
  request are registered and no response has arrived.
\<close>

definition pending :: "world \<Rightarrow> bool" where
  "pending w = (configured w \<and> \<not> metricsTriggered w \<and> calls w = [])"

definition awaiting :: "world \<Rightarrow> bool" where
  "awaiting w = (pending w \<and> requestListeners w \<and> \<not> dataCounting w)"

text \<open>
  The number that \<open>onResponse\<close> reads from the \<^verbatim>\<open>content-length\<close> header
  (\<open>NaN\<close> also when there is none).
\<close>

definition seeded :: "response \<Rightarrow> number" where
  "seeded res =
     (case headers res ''content-length'' of
        None \<Rightarrow> NaN
      | Some v \<Rightarrow> parseInt v (Some 10))"

text \<open>
  Two metrics objects agree on the target of the request; and: every call so far
  reported the target that \<open>requestMetrics\<close> computes from the options and the request
  of the object.
\<close>

definition same_target :: "metrics \<Rightarrow> metrics \<Rightarrow> bool" where
  "same_target a b =
     (protocol a = protocol b \<and> host a = host b \<and> port a = port b \<and> path a = path b
      \<and> url a = url b)"

definition target_inv :: "options \<Rightarrow> request \<Rightarrow> world \<Rightarrow> bool" where
  "target_inv ho rq w =
     (configured w \<and> this_httpOptions w = Some ho \<and> this_request w = Some rq
      \<and> (\<forall>c\<in>set (calls w). same_target (arg c) (requestMetrics ho rq)))"

text \<open>
  The metrics reported when the events \<open>es\<close> follow a call of the entry point.
\<close>

definition metrics_after :: "event list \<Rightarrow> js_error + request \<times> world \<Rightarrow> metrics list" where
  "metrics_after es r = (case r of Inl _ \<Rightarrow> [] | Inr (rq, w) \<Rightarrow> reported (run es w))"

fun is_finish :: "event \<Rightarrow> bool" where
  "is_finish (EvFinish _) = True"
| "is_finish _ = False"

text \<open>
  The clock that an event reads, and a sequence of events whose clock never runs
  backwards from the instant \<open>T\<close> (in nanoseconds) on: \<^verbatim>\<open>process.hrtime()\<close> is
  monotonic.
\<close>

fun stamp :: "event \<Rightarrow> hrtime option" where
  "stamp (EvWrite _) = None"
| "stamp (EvSocket t) = Some t"
| "stamp (EvLookup t) = Some t"
| "stamp (EvConnect t _ _) = Some t"
| "stamp (EvSecureConnect t) = Some t"
| "stamp (EvSocketData t) = Some t"
| "stamp (EvFinish t) = Some t"
| "stamp (EvResponse _ _ _) = None"
| "stamp (EvResponseData _) = None"
| "stamp (EvResponseEnd t) = Some t"
| "stamp (EvError t _) = Some t"
| "stamp (EvTimeout t) = Some t"
| "stamp (EvTimerFire _ t) = Some t"

fun clock_from :: "int \<Rightarrow> event list \<Rightarrow> bool" where
  "clock_from T [] = True"
| "clock_from T (e # es) =
     (case stamp e of
        None \<Rightarrow> clock_from T es
      | Some t \<Rightarrow> T \<le> instant_ns t \<and> clock_from (instant_ns t) es)"

fun is_secureConnect :: "event \<Rightarrow> bool" where
  "is_secureConnect (EvSecureConnect _) = True"
| "is_secureConnect _ = False"

text \<open>
  A duration that is "unknown" or not negative; a slot that is unset or not later than
  \<open>T\<close>; a slot that is not later than another one when both are set.
\<close>

definition not_negative :: "rat option \<Rightarrow> bool" where
  "not_negative d = (case d of None \<Rightarrow> True | Some x \<Rightarrow> 0 \<le> x)"

definition bounded :: "int \<Rightarrow> hrtime option \<Rightarrow> bool" where
  "bounded T x = (case x of None \<Rightarrow> True | Some t \<Rightarrow> instant_ns t \<le> T)"

definition before :: "hrtime option \<Rightarrow> hrtime option \<Rightarrow> bool" where
  "before a b =
     (case a of
        None \<Rightarrow> True
      | Some x \<Rightarrow> (case b of None \<Rightarrow> True | Some y \<Rightarrow> instant_ns x \<le> instant_ns y))"

text \<open>
  Without a TLS handshake: the connect and request-sent slots are not later than the
  clock \<open>T\<close>, the request was sent after the connection, and no reported
  \<^verbatim>\<open>durationSend\<close> is negative.
\<close>

definition send_inv :: "int \<Rightarrow> world \<Rightarrow> bool" where
  "send_inv T w =
     (configured w
      \<and> tlsHandshakeAt (timings w) = None
      \<and> bounded T (tcpConnectionAt (timings w))
      \<and> bounded T (sentRequestAt (timings w))
      \<and> before (tcpConnectionAt (timings w)) (sentRequestAt (timings w))
      \<and> (\<forall>c\<in>set (calls w). not_negative (durationSend (arg c))))"

text \<open>
  The URL \<^verbatim>\<open>http://example.com:0/\<close>, whose explicit port is 0.
\<close>

definition port0_url :: URL where
  "port0_url =
     \<lparr>url_protocol = ''http:'', url_hostname = ''example.com'', url_hash = [],
      url_search = [], url_pathname = ''/'', url_href = ''http://example.com:0/'',
      url_port = Some 0, url_username = [], url_password = []\<rparr>"

definition port0_newURL :: "string \<Rightarrow> URL option" where
  "port0_newURL s = (if s = ''http://example.com:0/'' then Some port0_url else None)"

subsection \<open>Terminal signals in a sequence of events\<close>





section \<open>Basic facts about the model\<close>

lemmas listener_defs =
  write_wrapper_def onSocket_def on_lookup_def on_connect_def on_secureConnect_def
  on_socket_data_def on_finish_def on_response_data_def onResponse_def
  startNoResponseEndTimer_def

lemmas terminal_defs = onEnd_def onError_def onTimeout_def timer_callback_def

lemmas builder_defs =
  requestWithMetrics_def getRequest_def withMetricsCallback_def withArgs_def
  withRequestFn_def constructor_def onRequest_def trackRequestBody_def

lemmas example_defs =
  example_world_def example_request_def example_requestFn_def example_newURL_def
  example_url_def example_response_def

lemma cancelTimer_fields [simp]:
  "timings (cancelTimer w) = timings w"
  "metricsCallback (cancelTimer w) = metricsCallback w"
  "this_httpOptions (cancelTimer w) = this_httpOptions w"
  "this_request (cancelTimer w) = this_request w"
  "this_response (cancelTimer w) = this_response w"
  "this_requestBodySize (cancelTimer w) = this_requestBodySize w"
  "this_serverRequestId (cancelTimer w) = this_serverRequestId w"
  "responseSize (cancelTimer w) = responseSize w"
  "localAddress (cancelTimer w) = localAddress w"
  "remoteAddress (cancelTimer w) = remoteAddress w"
  "noResponseEndTimer (cancelTimer w) = noResponseEndTimer w"
  "metricsTriggered (cancelTimer w) = metricsTriggered w"
  "calls (cancelTimer w) = calls w"
  "console (cancelTimer w) = console w"
  "requestListeners (cancelTimer w) = requestListeners w"
  "errorOnce (cancelTimer w) = errorOnce w"
  "endListeners (cancelTimer w) = endListeners w"
  "dataCounting (cancelTimer w) = dataCounting w"
  "socketListeners (cancelTimer w) = socketListeners w"
  "firstByteOnce (cancelTimer w) = firstByteOnce w"
  "writeWrapped (cancelTimer w) = writeWrapped w"
  by (simp_all add: cancelTimer_def clearTimeout_def split: option.split)

lemma timers_cancelTimer:
  "timers (cancelTimer w) =
     (case noResponseEndTimer w of None \<Rightarrow> timers w | Some h \<Rightarrow> disarm h (timers w))"
  by (simp add: cancelTimer_def clearTimeout_def split: option.split)

lemma triggerMetrics_char:
  assumes "configured w"
  shows "triggerMetrics x w =
           Inr ((cancelTimer w)
                  \<lparr>calls := calls w @ (if metricsTriggered w then [] else [the_call x w]),
                   metricsTriggered := True\<rparr>)"
proof (cases "metricsTriggered w")
  case True
  then show ?thesis by (simp add: triggerMetrics_def Let_def)
next
  case False
  from assms obtain cb opts req where
    "metricsCallback w = Some cb" "this_httpOptions w = Some opts" "this_request w = Some req"
    by (auto simp: configured_def)
  with False show ?thesis
    by (simp add: triggerMetrics_def Let_def getRequestMetrics_def the_call_def)
qed

lemma run_append:
  "run (es @ fs) w = (case run es w of Inl x \<Rightarrow> Inl x | Inr w1 \<Rightarrow> run fs w1)"
  by (induction es arbitrary: w) (simp_all split: sum.split)

lemma step_not_listening: "\<not> listening e w \<Longrightarrow> step e w = Inr w"
  by (cases e) simp_all

text \<open>A property that every step keeps is kept by every run.\<close>

lemma run_invariant:
  assumes "P w"
    and "\<forall>e\<in>set es. Q e"
    and "\<And>e v. P v \<Longrightarrow> Q e \<Longrightarrow> \<exists>v'. step e v = Inr v' \<and> P v'"
  shows "\<exists>w'. run es w = Inr w' \<and> P w'"
  using assms(1,2)
proof (induction es arbitrary: w)
  case Nil
  then show ?case by simp
next
  case (Cons e es)
  then obtain v where v: "step e w = Inr v" "P v"
    using assms(3) [of w e] by auto
  from Cons.IH [OF v(2)] Cons.prems(2) v(1) show ?case by simp
qed

lemma step_configured:
  assumes "configured w"
  shows "\<exists>w'. step e w = Inr w' \<and> configured w'
              \<and> metricsCallback w' = metricsCallback w
              \<and> this_httpOptions w' = this_httpOptions w
              \<and> this_request w' = this_request w"
  using assms
  by (cases e)
     (simp_all add: configured_def listener_defs terminal_defs triggerMetrics_char Let_def
        split: option.split)

section \<open>The world that the entry point returns\<close>

lemma requestWithMetrics_world:
  assumes "requestWithMetrics newURL UA now f cbo inp opts cb = Inr (req, w)"
  shows "fresh w \<and> (attached w \<or> detached w)
         \<and> startAt (timings w) = Some now
         \<and> metricsCallback w = Some (case cbo of None \<Rightarrow> NoOp | Some g \<Rightarrow> g)
         \<and> this_request w = Some req
         \<and> (\<exists>ho. httpOptions newURL inp opts = Inr ho \<and> this_httpOptions w = Some ho)
         \<and> f inp opts cb = Inr req
         \<and> (\<exists>ignored. ignoreRequest UA w = Inr ignored \<and> (ignored \<longrightarrow> detached w)
                \<and> (\<not> ignored \<longrightarrow> attached w))"
  using assms
  by (auto simp: builder_defs ignoreRequest_def fresh_def configured_def attached_def
        detached_def Let_def split: sum.splits option.splits if_splits)

lemma example_requestWithMetrics:
  "requestWithMetrics example_newURL ''sink/1.0'' (0, 0) example_requestFn cbo
      (InString ''https://example.com/api'') ArgUndefined None
   = Inr (example_request, example_world cbo)"
  by (simp add: requestWithMetrics_def getRequest_def httpOptions_def example_defs
        withMetricsCallback_def withArgs_def withRequestFn_def ignoreRequest_def
        truthy_header_def)

section \<open>The duration calculator\<close>

text \<open>
  Claim C9. The duration calculator returns "unknown" (\<open>None\<close>) if either timestamp is
  unset, and otherwise the elapsed time from the first instant to the second in
  fractional milliseconds: the difference of the two instants in nanoseconds, divided
  by $10^6$. It is a function of its two arguments alone: it reads and writes no state.
\<close>

theorem getDurationInMs_contract:
  "getDurationInMs None b = None
   \<and> getDurationInMs a None = None
   \<and> getDurationInMs (Some x) (Some y)
       = Some (of_int (instant_ns y - instant_ns x) / 1000000)
   \<and> getDurationInMs a b = elapsed_ms a b"
proof -
  have 1: "getDurationInMs None b = None" by simp
  have 2: "getDurationInMs a None = None" by (cases a) simp_all
  have 3: "getDurationInMs (Some x) (Some y)
             = Some (of_int (instant_ns y - instant_ns x) / 1000000)" for x y
    by (simp add: instant_ns_def NS_PER_SEC_def MS_PER_NS_def Let_def algebra_simps)
  have 4: "getDurationInMs a b = elapsed_ms a b"
    by (cases a; cases b) (simp_all add: 3 elapsed_ms_def del: getDurationInMs.simps(3))
  from 1 2 3 4 show ?thesis by blast
qed

section \<open>A missing callback\<close>

lemma step_noop_inv:
  assumes "noop_inv w"
  shows "\<exists>w'. step e w = Inr w' \<and> noop_inv w'"
  using assms
  by (cases e)
     (simp_all add: noop_inv_def configured_def listener_defs terminal_defs
        triggerMetrics_char the_call_def Let_def split: option.split)

text \<open>
  Without \<^verbatim>\<open>withMetricsCallback\<close> the first report would throw: the failure that the
  no-op function prevents.
\<close>

lemma missing_callback_fails:
  "run [EvTimeout (1, 0)] ((example_world None)\<lparr>metricsCallback := None\<rparr>) = Inl TypeError"
  by (simp add: example_defs builder_defs terminal_defs triggerMetrics_def cancelTimer_def
        getRequestMetrics_def Let_def)

text \<open>
  Claim C10. If no metrics callback is supplied, \<^verbatim>\<open>withMetricsCallback\<close> installs the
  no-op function; then for a request made through the instrumented entry point no
  sequence of events throws, and every report calls the no-op function.
\<close>

theorem withMetricsCallback_noop:
  "metricsCallback (withMetricsCallback None w0) = Some NoOp
   \<and> (requestWithMetrics newURL UA now f None inp opts cb = Inr (req, w) \<longrightarrow>
        (\<exists>w'. run es w = Inr w' \<and> (\<forall>c\<in>set (calls w'). callee c = NoOp)))"
proof (intro conjI impI)
  show "metricsCallback (withMetricsCallback None w0) = Some NoOp"
    by (simp add: withMetricsCallback_def)
next
  assume "requestWithMetrics newURL UA now f None inp opts cb = Inr (req, w)"
  from requestWithMetrics_world [OF this] have "noop_inv w"
    by (simp add: noop_inv_def fresh_def)
  then have "\<exists>w'. run es w = Inr w' \<and> noop_inv w'"
    by (rule run_invariant [where Q = "\<lambda>e. True"]) (simp_all add: step_noop_inv)
  then show "\<exists>w'. run es w = Inr w' \<and> (\<forall>c\<in>set (calls w'). callee c = NoOp)"
    by (auto simp: noop_inv_def)
qed

text \<open>
  The example request made without a callback, then a timeout: the run returns and the
  call goes to the no-op function.
\<close>

theorem withMetricsCallback_noop_witness:
  "requestWithMetrics example_newURL ''sink/1.0'' (0, 0) example_requestFn None
      (InString ''https://example.com/api'') ArgUndefined None
     = Inr (example_request, example_world None)
   \<and> (\<exists>w'. run [EvTimeout (1, 0)] (example_world None) = Inr w'
          \<and> (\<forall>c\<in>set (calls w'). callee c = NoOp))"
  using withMetricsCallback_noop
          [where newURL = example_newURL and UA = "''sink/1.0''" and now = "(0, 0)"
             and f = example_requestFn and inp = "InString ''https://example.com/api''"
             and opts = ArgUndefined and cb = None and req = example_request
             and w = "example_world None" and es = "[EvTimeout (1, 0)]"]
        example_requestWithMetrics [of None]
  by blast

section \<open>The example request\<close>

lemma example_world_attached:
  "attached (example_world cbo)" "fresh (example_world cbo)"
  by (simp_all add: attached_def fresh_def configured_def example_defs builder_defs)

section \<open>Self-exclusion\<close>

lemma detached_not_listening:
  assumes "fresh w" "detached w"
  shows "\<not> listening e w"
  using assms by (cases e) (simp_all add: fresh_def detached_def isArmed_def)

lemma detached_run:
  assumes "fresh w" "detached w"
  shows "run es w = Inr w"
  by (induction es) (simp_all add: step_not_listening detached_not_listening [OF assms])

text \<open>
  Claim C7. When the request that the original function returns carries a
  \<^verbatim>\<open>User-Agent\<close> header equal to the sink's constant (a non-empty string), the entry
  point still returns that request handle, the object has a listener for no event at
  all, every sequence of events leaves the object as it is, and the metrics callback is
  never called.
\<close>

theorem sink_request_ignored:
  assumes "httpOptions newURL inp opts = Inr ho"
    and "f inp opts cb = Inr req"
    and "getHeader req ''User-Agent'' = HStr USER_AGENT"
    and "USER_AGENT \<noteq> []"
  shows "\<exists>w. requestWithMetrics newURL USER_AGENT now f cbo inp opts cb = Inr (req, w)
             \<and> (\<forall>e. \<not> listening e w)
             \<and> (\<forall>es. run es w = Inr w)
             \<and> calls w = []"
proof -
  define w where "w = (withMetricsCallback cbo (withArgs inp opts cb (withRequestFn f (constructor now))))
                       \<lparr>this_httpOptions := Some ho, this_request := Some req\<rparr>"
  have r: "requestWithMetrics newURL USER_AGENT now f cbo inp opts cb = Inr (req, w)"
    using assms
    by (simp add: w_def requestWithMetrics_def getRequest_def withMetricsCallback_def
          withArgs_def withRequestFn_def ignoreRequest_def truthy_header_def Let_def)
  have i: "ignoreRequest USER_AGENT w = Inr True"
    using assms by (simp add: w_def ignoreRequest_def truthy_header_def)
  from requestWithMetrics_world [OF r] i have fd: "fresh w" "detached w" by auto
  from r detached_not_listening [OF fd] detached_run [OF fd] fd(1) show ?thesis
    by (auto simp: fresh_def)
qed

text \<open>The sink's own request with the constant \<^verbatim>\<open>sink/1.0\<close>.\<close>

theorem sink_request_ignored_witness:
  "httpOptions example_newURL (InString ''https://example.com/api'') ArgUndefined = Inr (urlToOptions example_url)
   \<and> getHeader sink_request ''User-Agent'' = HStr ''sink/1.0''
   \<and> ''sink/1.0'' \<noteq> []
   \<and> (\<exists>w. requestWithMetrics example_newURL ''sink/1.0'' (0, 0) sink_requestFn (Some (UserFn 0))
              (InString ''https://example.com/api'') ArgUndefined None = Inr (sink_request, w)
          \<and> (\<forall>e. \<not> listening e w)
          \<and> (\<forall>es. run es w = Inr w)
          \<and> calls w = [])"
proof -
  have h: "httpOptions example_newURL (InString ''https://example.com/api'') ArgUndefined = Inr (urlToOptions example_url)"
    by (simp add: httpOptions_def example_newURL_def)
  have g: "getHeader sink_request ''User-Agent'' = HStr ''sink/1.0''"
    by (simp add: sink_request_def)
  show ?thesis
    using sink_request_ignored [OF h _ g, where f = sink_requestFn and cb = None] h g
    by (simp add: sink_requestFn_def)
qed

section \<open>Runs of a configured object\<close>

lemma run_configured:
  assumes "configured w"
  shows "\<exists>w'. run es w = Inr w' \<and> configured w'"
  using assms
  by (rule run_invariant [where Q = "\<lambda>e. True"]) (use step_configured in \<open>blast+\<close>)

lemma example_world_configured: "configured (example_world cbo)"
  using example_world_attached(2) by (simp add: fresh_def)

lemma example_not_ignored: "ignoreRequest ''sink/1.0'' (example_world cbo) = Inr False"
  by (simp add: ignoreRequest_def truthy_header_def example_defs builder_defs)

section \<open>The timer and the callback\<close>

lemma isArmed_disarm: "isArmed h (disarm h' ts) = (isArmed h ts \<and> h \<noteq> h')"
  by (cases "h' < length ts") (auto simp: isArmed_def disarm_def nth_list_update)

lemma isArmed_append:
  "isArmed h (ts @ [t]) = (isArmed h ts \<or> (h = length ts \<and> armed t))"
  by (auto simp: isArmed_def nth_append)

lemma none_armed_iff: "none_armed ts = (\<forall>h. \<not> isArmed h ts)"
  by (simp add: none_armed_def isArmed_def all_set_conv_all_nth)

lemma isArmed_cancelTimer:
  "isArmed h (timers (cancelTimer w)) = (isArmed h (timers w) \<and> noResponseEndTimer w \<noteq> Some h)"
  by (cases "noResponseEndTimer w") (auto simp: timers_cancelTimer isArmed_disarm)

lemma step_held_inv:
  assumes "held_inv w"
  shows "\<exists>w'. step e w = Inr w' \<and> held_inv w'"
  using assms
  by (cases e)
     (simp_all add: held_inv_def configured_def listener_defs terminal_defs triggerMetrics_char
        the_call_def isArmed_cancelTimer Let_def split: option.split)

lemma step_single_inv:
  assumes "single_inv w" "\<not> is_response e"
  shows "\<exists>w'. step e w = Inr w' \<and> single_inv w' \<and> (none_armed (timers w) \<longrightarrow> none_armed (timers w'))"
proof -
  from assms(1) have u: "h = h'" if "isArmed h (timers w)" "isArmed h' (timers w)" for h h'
    using that unfolding single_inv_def by (metis option.inject)
  from assms show ?thesis
    by (cases e)
       (auto simp: single_inv_def configured_def listener_defs terminal_defs triggerMetrics_char
          the_call_def isArmed_cancelTimer isArmed_disarm none_armed_iff Let_def
          split: option.split dest: u)
qed

lemma step_single_inv_response:
  assumes "single_inv w" "none_armed (timers w)"
  shows "\<exists>w'. step e w = Inr w' \<and> single_inv w'"
proof (cases "is_response e")
  case False
  with step_single_inv [OF assms(1)] show ?thesis by blast
next
  case True
  then obtain res d n where "e = EvResponse res d n" by (cases e) simp_all
  with assms show ?thesis
    by (auto simp: single_inv_def configured_def onResponse_def startNoResponseEndTimer_def
          isArmed_append none_armed_iff Let_def)
qed

lemma run_single_inv:
  assumes "single_inv w" "\<forall>e\<in>set es. \<not> is_response e"
  shows "\<exists>w'. run es w = Inr w' \<and> single_inv w'"
  using assms
  by (rule run_invariant [where Q = "\<lambda>e. \<not> is_response e"]) (use step_single_inv in \<open>blast+\<close>)

lemma run_single_response:
  assumes "single_inv w" "none_armed (timers w)" "length (filter is_response es) \<le> 1"
  shows "\<exists>w'. run es w = Inr w' \<and> single_inv w'"
  using assms
proof (induction es arbitrary: w)
  case Nil
  then show ?case by simp
next
  case (Cons e es)
  show ?case
  proof (cases "is_response e")
    case True
    from step_single_inv_response [OF Cons.prems(1,2), of e]
    obtain v where v: "step e w = Inr v" "single_inv v" by blast
    from True Cons.prems(3) have "\<forall>x\<in>set es. \<not> is_response x"
      by (auto simp: filter_empty_conv)
    from run_single_inv [OF v(2) this] v(1) show ?thesis by simp
  next
    case False
    from step_single_inv [OF Cons.prems(1) False]
    obtain v where v: "step e w = Inr v" "single_inv v" "none_armed (timers v)"
      using Cons.prems(2) by blast
    from False Cons.prems(3) have "length (filter is_response es) \<le> 1" by simp
    from Cons.IH [OF v(2,3) this] v(1) show ?thesis by simp
  qed
qed

text \<open>
  Claim C6. At every call of the metrics callback, on whichever terminal path, the
  timer whose handle the object holds has been cancelled before: it is not armed at the
  moment of the call. With at most one \<^verbatim>\<open>response\<close> event (a request has one response)
  no timer at all is armed at the moment of the call.
\<close>

theorem timer_cancelled_before_callback:
  assumes "requestWithMetrics newURL UA now f cbo inp opts cb = Inr (req, w)"
    and "run es w = Inr w'"
    and "c \<in> set (calls w')"
  shows "(\<forall>h. handleAtCall c = Some h \<longrightarrow> \<not> isArmed h (timersAtCall c))
       \<and> (length (filter is_response es) \<le> 1 \<longrightarrow> none_armed (timersAtCall c))"
proof -
  from requestWithMetrics_world [OF assms(1)] have f: "fresh w" by simp
  then have "held_inv w" by (simp add: held_inv_def fresh_def)
  then have "\<exists>v. run es w = Inr v \<and> held_inv v"
    by (rule run_invariant [where Q = "\<lambda>e. True"]) (simp_all add: step_held_inv)
  with assms(2,3) have 1: "\<forall>h. handleAtCall c = Some h \<longrightarrow> \<not> isArmed h (timersAtCall c)"
    by (auto simp: held_inv_def)
  have 2: "none_armed (timersAtCall c)" if "length (filter is_response es) \<le> 1"
  proof -
    from f have "single_inv w" "none_armed (timers w)"
      by (simp_all add: single_inv_def fresh_def none_armed_def isArmed_def)
    from run_single_response [OF this that] assms(2,3) show ?thesis
      by (auto simp: single_inv_def)
  qed
  from 1 2 show ?thesis by blast
qed

text \<open>
  The example request, its response and the end of the response: the one call finds
  no timer armed.
\<close>

theorem timer_cancelled_before_callback_witness:
  "requestWithMetrics example_newURL ''sink/1.0'' (0, 0) example_requestFn (Some (UserFn 0))
      (InString ''https://example.com/api'') ArgUndefined None
     = Inr (example_request, example_world (Some (UserFn 0)))
   \<and> length (filter is_response
         [EvResponse (example_response (Some ''42'')) None 0, EvResponseEnd (5, 0)]) \<le> 1
   \<and> (\<exists>w' c. run [EvResponse (example_response (Some ''42'')) None 0, EvResponseEnd (5, 0)]
                 (example_world (Some (UserFn 0))) = Inr w'
          \<and> c \<in> set (calls w')
          \<and> (\<forall>h. handleAtCall c = Some h \<longrightarrow> \<not> isArmed h (timersAtCall c))
          \<and> none_armed (timersAtCall c))"
proof -
  let ?w = "example_world (Some (UserFn 0))"
  let ?es = "[EvResponse (example_response (Some ''42'')) None 0, EvResponseEnd (5, 0)]"
  have n: "length (reported (run ?es ?w)) = 1" by code_simp
  from run_configured [OF example_world_configured [of "Some (UserFn 0)"], of ?es]
  obtain w' where w': "run ?es ?w = Inr w'" by blast
  with n have "length (calls w') = 1" by (simp add: reported_def)
  then obtain c where c: "c \<in> set (calls w')" by (cases "calls w'") auto
  have r: "length (filter is_response ?es) \<le> 1" by simp
  from timer_cancelled_before_callback
         [OF example_requestWithMetrics [of "Some (UserFn 0)"] w' c] r
  have "(\<forall>h. handleAtCall c = Some h \<longrightarrow> \<not> isArmed h (timersAtCall c))
          \<and> none_armed (timersAtCall c)"
    by blast
  with w' c r example_requestWithMetrics [of "Some (UserFn 0)"] show ?thesis by blast
qed

section \<open>The slots of the timing record\<close>

text \<open>
  Claim C5, as stated, fails: a timeout that the caller does not act upon, followed by
  the response and its end, sets both the errored and the ended slot.
\<close>

theorem terminal_slots_both_set:
  "map_option endAt
     (final_timings (run [EvTimeout (1, 0), EvResponse (example_response (Some ''42'')) None 0,
                          EvResponseEnd (5, 0)]
                       (example_world (Some (UserFn 0)))))
     = Some (Some (5, 0))
   \<and> map_option errorAt
     (final_timings (run [EvTimeout (1, 0), EvResponse (example_response (Some ''42'')) None 0,
                          EvResponseEnd (5, 0)]
                       (example_world (Some (UserFn 0)))))
     = Some (Some (1, 0))"
  by code_simp

text \<open>
  Claim C5, amended. The start slot is set at construction and never overwritten. The
  errored slot stays unset as long as no error and no timeout signal has occurred, and
  the ended slot as long as neither the end of the response nor the timer has occurred;
  nothing makes the two exclude each other.
\<close>

theorem start_kept_terminal_slots:
  assumes "requestWithMetrics newURL UA now f cbo inp opts cb = Inr (req, w)"
    and "run es w = Inr w'"
  shows "startAt (timings w') = Some now
       \<and> ((\<forall>e\<in>set es. \<not> error_signal e) \<longrightarrow> errorAt (timings w') = None)
       \<and> ((\<forall>e\<in>set es. \<not> end_signal e) \<longrightarrow> endAt (timings w') = None)"
proof -
  from requestWithMetrics_world [OF assms(1)]
  have f: "configured w" "startAt (timings w) = Some now" "errorAt (timings w) = None"
    "endAt (timings w) = None"
    by (simp_all add: fresh_def)
  have "\<exists>v. run es w = Inr v \<and> (configured v \<and> startAt (timings v) = Some now)"
  proof (rule run_invariant [where Q = "\<lambda>e. True"])
    fix e v assume "configured v \<and> startAt (timings v) = Some now"
    then show "\<exists>v'. step e v = Inr v' \<and> configured v' \<and> startAt (timings v') = Some now"
      by (cases e)
         (simp_all add: configured_def listener_defs terminal_defs triggerMetrics_char Let_def
            split: option.split)
  qed (use f in simp_all)
  with assms(2) have 1: "startAt (timings w') = Some now" by simp
  have 2: "errorAt (timings w') = None" if h: "\<forall>e\<in>set es. \<not> error_signal e"
  proof -
    have "\<exists>v. run es w = Inr v \<and> (configured v \<and> errorAt (timings v) = None)"
    proof (rule run_invariant [where Q = "\<lambda>e. \<not> error_signal e"])
      fix e v assume "configured v \<and> errorAt (timings v) = None" "\<not> error_signal e"
      then show "\<exists>v'. step e v = Inr v' \<and> configured v' \<and> errorAt (timings v') = None"
        by (cases e)
           (simp_all add: configured_def listener_defs terminal_defs triggerMetrics_char Let_def
              split: option.split)
    qed (use f h in simp_all)
    with assms(2) show ?thesis by simp
  qed
  have 3: "endAt (timings w') = None" if h: "\<forall>e\<in>set es. \<not> end_signal e"
  proof -
    have "\<exists>v. run es w = Inr v \<and> (configured v \<and> endAt (timings v) = None)"
    proof (rule run_invariant [where Q = "\<lambda>e. \<not> end_signal e"])
      fix e v assume "configured v \<and> endAt (timings v) = None" "\<not> end_signal e"
      then show "\<exists>v'. step e v = Inr v' \<and> configured v' \<and> endAt (timings v') = None"
        by (cases e)
           (simp_all add: configured_def listener_defs terminal_defs triggerMetrics_char Let_def
              split: option.split)
    qed (use f h in simp_all)
    with assms(2) show ?thesis by simp
  qed
  from 1 2 3 show ?thesis by blast
qed

text \<open>
  The example request with a socket and a finish event only: the start slot holds the
  clock of the construction, both terminal slots are unset.
\<close>

theorem start_kept_terminal_slots_witness:
  "requestWithMetrics example_newURL ''sink/1.0'' (0, 0) example_requestFn (Some (UserFn 0))
      (InString ''https://example.com/api'') ArgUndefined None
     = Inr (example_request, example_world (Some (UserFn 0)))
   \<and> list_all (\<lambda>e. \<not> error_signal e) [EvSocket (1, 0), EvFinish (2, 0)]
   \<and> list_all (\<lambda>e. \<not> end_signal e) [EvSocket (1, 0), EvFinish (2, 0)]
   \<and> (\<exists>w'. run [EvSocket (1, 0), EvFinish (2, 0)] (example_world (Some (UserFn 0))) = Inr w'
          \<and> startAt (timings w') = Some (0, 0)
          \<and> errorAt (timings w') = None
          \<and> endAt (timings w') = None)"
proof -
  let ?w = "example_world (Some (UserFn 0))"
  let ?es = "[EvSocket (1, 0), EvFinish (2, 0)]"
  from run_configured [OF example_world_configured [of "Some (UserFn 0)"], of ?es]
  obtain w' where w': "run ?es ?w = Inr w'" by blast
  have q: "\<forall>e\<in>set ?es. \<not> error_signal e" "\<forall>e\<in>set ?es. \<not> end_signal e" by simp_all
  from start_kept_terminal_slots [OF example_requestWithMetrics [of "Some (UserFn 0)"] w'] q
  have "startAt (timings w') = Some (0, 0) \<and> errorAt (timings w') = None
          \<and> endAt (timings w') = None"
    by blast
  with w' example_requestWithMetrics [of "Some (UserFn 0)"] show ?thesis by simp
qed

section \<open>The fields of a report\<close>

lemma pick_None [simp]: "pick x None = x" "pick None y = y"
  by (simp_all add: pick_def split: option.split)

lemma requestMetrics_other_fields:
  "durationReceive (requestMetrics ho rq) = None"
  "durationSend (requestMetrics ho rq) = None"
  "responseBodySize (requestMetrics ho rq) = None"
  "requestBodySize (requestMetrics ho rq) = None"
  by (simp_all add: requestMetrics_def no_metrics_def Let_def)

lemma getResponseMetrics_other_fields:
  "durationReceive (getResponseMetrics w) = None"
  "durationSend (getResponseMetrics w) = None"
  "responseBodySize (getResponseMetrics w) = None"
  "requestBodySize (getResponseMetrics w) = None"
  "protocol (getResponseMetrics w) = None"
  "host (getResponseMetrics w) = None"
  "port (getResponseMetrics w) = None"
  "path (getResponseMetrics w) = None"
  "url (getResponseMetrics w) = None"
  by (simp_all add: getResponseMetrics_def no_metrics_def split: option.split)

lemma getTimingMetrics_fields:
  "durationReceive (getTimingMetrics w) = getDurationInMs (firstByteAt (timings w)) (endAt (timings w))"
  "durationSend (getTimingMetrics w)
     = getDurationInMs (or_time (tlsHandshakeAt (timings w)) (tcpConnectionAt (timings w)))
         (sentRequestAt (timings w))"
  "responseBodySize (getTimingMetrics w) = None"
  "requestBodySize (getTimingMetrics w) = None"
  "protocol (getTimingMetrics w) = None"
  "host (getTimingMetrics w) = None"
  "port (getTimingMetrics w) = None"
  "path (getTimingMetrics w) = None"
  "url (getTimingMetrics w) = None"
  by (simp_all add: getTimingMetrics_def no_metrics_def Let_def)

lemma the_call_fields:
  "durationReceive (arg (the_call x w))
     = pick (durationReceive x) (getDurationInMs (firstByteAt (timings w)) (endAt (timings w)))"
  "durationSend (arg (the_call x w))
     = pick (durationSend x)
         (getDurationInMs (or_time (tlsHandshakeAt (timings w)) (tcpConnectionAt (timings w)))
            (sentRequestAt (timings w)))"
  "responseBodySize (arg (the_call x w)) = responseBodySize x"
  "requestBodySize (arg (the_call x w)) = requestBodySize x"
  by (simp_all add: the_call_def spread_def requestMetrics_other_fields
        getResponseMetrics_other_fields getTimingMetrics_fields)

section \<open>The safety-net timer\<close>



lemma run_reported:
  assumes "configured w" "metricsTriggered w"
  shows "\<exists>w'. run es w = Inr w' \<and> calls w' = calls w"
proof -
  let ?P = "\<lambda>v. configured v \<and> metricsTriggered v \<and> calls v = calls w"
  have "\<exists>w'. run es w = Inr w' \<and> ?P w'"
  proof (rule run_invariant [where Q = "\<lambda>e. True"])
    fix e v assume "?P v"
    then show "\<exists>v'. step e v = Inr v' \<and> ?P v'"
      by (cases e)
         (simp_all add: configured_def listener_defs terminal_defs triggerMetrics_char Let_def
            split: option.split)
  qed (use assms in simp_all)
  then show ?thesis by blast
qed





section \<open>The size of the response body\<close>

lemma step_awaiting:
  assumes "awaiting w" "quiet e"
  shows "\<exists>w'. step e w = Inr w' \<and> awaiting w'"
  using assms
  by (cases e)
     (simp_all add: awaiting_def pending_def quiet_def configured_def listener_defs Let_def
        split: option.split)

lemma run_awaiting:
  assumes "awaiting w" "\<forall>e\<in>set es. quiet e"
  shows "\<exists>w'. run es w = Inr w' \<and> awaiting w'"
  using assms
  by (rule run_invariant [where Q = quiet]) (use step_awaiting in \<open>blast+\<close>)

lemma onResponse_awaiting:
  assumes "awaiting w"
  shows "\<exists>w'. step (EvResponse res d n) w = Inr w' \<and> pending w' \<and> endListeners w'
            \<and> dataCounting w' = (seeded res = NaN)
            \<and> responseSize w' = Some (case seeded res of NaN \<Rightarrow> Num 0 | Num k \<Rightarrow> Num k)"
  using assms
  by (cases "headers res ''content-length''"; cases "seeded res")
     (simp_all add: awaiting_def pending_def configured_def onResponse_def
        startNoResponseEndTimer_def seeded_def isNaN_def Let_def)

lemma step_body:
  assumes "pending w" "endListeners w" "responseSize w = Some (Num a)" "quiet e"
  shows "\<exists>w'. step e w = Inr w' \<and> pending w' \<and> endListeners w'
            \<and> dataCounting w' = dataCounting w
            \<and> responseSize w' = Some (Num (if dataCounting w then a + chunkTotal [e] else a))"
  using assms
  by (cases e)
     (simp_all add: pending_def quiet_def configured_def listener_defs Let_def
        split: option.split)

lemma run_body:
  assumes "pending w" "endListeners w" "responseSize w = Some (Num a)" "\<forall>e\<in>set es. quiet e"
  shows "\<exists>w'. run es w = Inr w' \<and> pending w' \<and> endListeners w'
            \<and> dataCounting w' = dataCounting w
            \<and> responseSize w' = Some (Num (if dataCounting w then a + chunkTotal es else a))"
  using assms
proof (induction es arbitrary: w a)
  case Nil
  then show ?case by simp
next
  case (Cons e es)
  from Cons.prems have q: "quiet e" "\<forall>x\<in>set es. quiet x" by simp_all
  from step_body [OF Cons.prems(1-3) q(1)]
  obtain v where v: "step e w = Inr v" "pending v" "endListeners v"
    "dataCounting v = dataCounting w"
    "responseSize v = Some (Num (if dataCounting w then a + chunkTotal [e] else a))"
    by blast
  from Cons.IH [OF v(2,3,5) q(2)] v(1,4)
  have "\<exists>w'. run (e # es) w = Inr w' \<and> pending w' \<and> endListeners w'
            \<and> dataCounting w' = dataCounting w
            \<and> responseSize w' = Some (Num (if dataCounting w
                  then (if dataCounting w then a + chunkTotal [e] else a) + chunkTotal es
                  else (if dataCounting w then a + chunkTotal [e] else a)))"
    by simp
  moreover have "chunkTotal (e # es) = chunkTotal [e] + chunkTotal es"
    by (cases e) simp_all
  ultimately show ?case by (auto split: if_splits)
qed

text \<open>
  Claim C3, as stated, fails: \<^verbatim>\<open>parseInt\<close> accepts a sign and reads the digits at
  the start of a header that is not a number as a whole. With one chunk of 5 bytes
  streamed, \<^verbatim>\<open>content-length: -5\<close> is reported as $-5$ and
  \<^verbatim>\<open>content-length: 12abc\<close> as 12: neither a non-negative integer that the header
  denotes nor the 5 bytes streamed.
\<close>

theorem responseBodySize_not_chunks_counterexample:
  "map responseBodySize
     (reported (run [EvResponse (example_response (Some ''-5'')) None 0, EvResponseData 5,
                     EvResponseEnd (5, 0)]
                  (example_world (Some (UserFn 0)))))
     = [Some (Num (- 5))]
   \<and> map responseBodySize
     (reported (run [EvResponse (example_response (Some ''12abc'')) None 0, EvResponseData 5,
                     EvResponseEnd (5, 0)]
                  (example_world (Some (UserFn 0)))))
     = [Some (Num 12)]
   \<and> chunkTotal [EvResponseData 5] = 5"
  by code_simp

text \<open>
  Claim C3, amended. When the response ends, the callback is called once, and
  \<^verbatim>\<open>responseBodySize\<close> is the number that \<^verbatim>\<open>parseInt(header, 10)\<close> reads from the
  \<^verbatim>\<open>content-length\<close> header, whatever is streamed; when the header is absent or
  \<^verbatim>\<open>parseInt\<close> reads no number from it, it is the sum of the lengths of the chunks
  streamed after the response arrived.
\<close>

theorem responseBodySize_from_header_or_chunks:
  assumes "requestWithMetrics newURL UA now f cbo inp opts cb = Inr (req, w)"
    and "ignoreRequest UA w = Inr False"
    and "\<forall>e\<in>set es0. quiet e"
    and "\<forall>e\<in>set es. quiet e"
  shows "\<exists>w' c. run (es0 @ EvResponse res d n # es @ EvResponseEnd t # es2) w = Inr w'
           \<and> calls w' = [c]
           \<and> responseBodySize (arg c)
               = Some (case headers res ''content-length'' of
                         None \<Rightarrow> Num (chunkTotal es)
                       | Some v \<Rightarrow>
                           (case parseInt v (Some 10) of
                              NaN \<Rightarrow> Num (chunkTotal es)
                            | Num k \<Rightarrow> Num k))"
proof -
  from requestWithMetrics_world [OF assms(1)] assms(2) have "awaiting w"
    by (auto simp: awaiting_def pending_def fresh_def attached_def)
  from run_awaiting [OF this assms(3)]
  obtain w1 where w1: "run es0 w = Inr w1" "awaiting w1" by blast
  from onResponse_awaiting [OF w1(2), of res d n]
  obtain w2 where w2: "step (EvResponse res d n) w1 = Inr w2" "pending w2" "endListeners w2"
    "dataCounting w2 = (seeded res = NaN)"
    "responseSize w2 = Some (case seeded res of NaN \<Rightarrow> Num 0 | Num k \<Rightarrow> Num k)"
    by blast
  define a where "a = (case seeded res of NaN \<Rightarrow> 0 | Num k \<Rightarrow> k)"
  from w2(5) have "responseSize w2 = Some (Num a)"
    by (simp add: a_def split: number.split)
  from run_body [OF w2(2,3) this assms(4)] w2(4)
  obtain w3 where w3: "run es w2 = Inr w3" "pending w3" "endListeners w3"
    "responseSize w3 = Some (Num (if seeded res = NaN then a + chunkTotal es else a))"
    by auto
  define v where "v = w3\<lparr>timings := (timings w3)\<lparr>endAt := Some t\<rparr>\<rparr>"
  define x where "x = no_metrics\<lparr>requestBodySize := this_requestBodySize w3,
                                  responseBodySize := responseSize w3,
                                  serverRequestId := this_serverRequestId w3\<rparr>"
  have s: "step (EvResponseEnd t) w3
             = Inr ((cancelTimer v)\<lparr>calls := [the_call x v], metricsTriggered := True\<rparr>)"
    using w3(2,3)
    by (simp add: pending_def configured_def onEnd_def triggerMetrics_char Let_def v_def x_def)
  have c: "responseBodySize (arg (the_call x v)) = responseSize w3"
    by (simp add: the_call_fields x_def no_metrics_def)
  let ?v = "(cancelTimer v)\<lparr>calls := [the_call x v], metricsTriggered := True\<rparr>"
  from w3(2) have "configured ?v" "metricsTriggered ?v"
    by (simp_all add: pending_def configured_def v_def)
  from run_reported [OF this, of es2]
  obtain w' where w': "run es2 ?v = Inr w'" "calls w' = [the_call x v]" by auto
  have r: "run (es0 @ EvResponse res d n # es @ EvResponseEnd t # es2) w = Inr w'"
    using w1(1) w2(1) w3(1) s w'(1) by (simp add: run_append)
  have "responseSize w3
          = Some (case headers res ''content-length'' of
                    None \<Rightarrow> Num (chunkTotal es)
                  | Some v \<Rightarrow>
                      (case parseInt v (Some 10) of
                         NaN \<Rightarrow> Num (chunkTotal es)
                       | Num k \<Rightarrow> Num k))"
    using w3(4) by (simp add: a_def seeded_def split: option.split number.split)
  with r c w'(2) show ?thesis by simp
qed

text \<open>
  On a header of decimal digits only, \<^verbatim>\<open>parseInt\<close> reads the whole header: the
  non-negative integer it denotes.
\<close>

lemma takeWhile_all: "\<forall>c\<in>set v. P c \<Longrightarrow> takeWhile P v = v"
  by (induction v) simp_all

lemma parseInt_digits:
  assumes "v \<noteq> []" "\<forall>c\<in>set v. isRadixDigit 10 c"
  shows "parseInt v (Some 10) = Num (int (radixValue 10 0 v))"
proof -
  obtain c cs where v: "v = c # cs" using assms(1) by (cases v) auto
  with assms(2) have d: "isRadixDigit 10 c" by simp
  then have "\<not> isWhiteSpace c" "c \<noteq> CHR ''-''" "c \<noteq> CHR ''+''"
    by (auto simp: isRadixDigit_def digitValue_def isWhiteSpace_def Let_def split: if_splits)
  with v assms(2) show ?thesis
    by (simp add: parseInt_def Let_def takeWhile_all)
qed

text \<open>
  The example request with \<^verbatim>\<open>content-length: 42\<close> and 12 bytes streamed, and with no
  such header and the same 12 bytes.
\<close>

theorem responseBodySize_from_header_or_chunks_witness:
  "requestWithMetrics example_newURL ''sink/1.0'' (0, 0) example_requestFn (Some (UserFn 0))
      (InString ''https://example.com/api'') ArgUndefined None
     = Inr (example_request, example_world (Some (UserFn 0)))
   \<and> ignoreRequest ''sink/1.0'' (example_world (Some (UserFn 0))) = Inr False
   \<and> list_all quiet [EvSocket (1, 0)]
   \<and> list_all quiet [EvResponseData 5, EvResponseData 7]
   \<and> (\<exists>w' c. run ([EvSocket (1, 0)] @ EvResponse (example_response (Some ''42'')) None 0
                     # [EvResponseData 5, EvResponseData 7]
                     @ EvResponseEnd (5, 0) # [EvTimeout (6, 0)])
                 (example_world (Some (UserFn 0))) = Inr w'
          \<and> calls w' = [c] \<and> responseBodySize (arg c) = Some (Num 42))
   \<and> (\<exists>w' c. run ([EvSocket (1, 0)] @ EvResponse (example_response None) None 0
                     # [EvResponseData 5, EvResponseData 7]
                     @ EvResponseEnd (5, 0) # [EvTimeout (6, 0)])
                 (example_world (Some (UserFn 0))) = Inr w'
          \<and> calls w' = [c] \<and> responseBodySize (arg c) = Some (Num 12))"
proof -
  have q: "\<forall>e\<in>set [EvSocket (1, 0)]. quiet e"
    "\<forall>e\<in>set [EvResponseData 5, EvResponseData 7]. quiet e"
    by (simp_all add: quiet_def)
  have p: "parseInt ''42'' (Some 10) = Num 42" by code_simp
  note t = responseBodySize_from_header_or_chunks
             [OF example_requestWithMetrics [of "Some (UserFn 0)"] example_not_ignored q,
              where d = None and n = 0 and t = "(5, 0)" and ?es2.0 = "[EvTimeout (6, 0)]"]
  from t [of "example_response (Some ''42'')"] t [of "example_response None"]
       example_requestWithMetrics [of "Some (UserFn 0)"]
       example_not_ignored [of "Some (UserFn 0)"]
  show ?thesis by (simp add: example_response_def p quiet_def)
qed

section \<open>The send duration\<close>

text \<open>
  The \<^verbatim>\<open>connect\<close> listener empties the request-sent slot: without a later
  \<^verbatim>\<open>finish\<close> the slot stays empty, and \<^verbatim>\<open>durationSend\<close> is "unknown".
\<close>

lemma sentRequestAt_cleared_by_connect:
  assumes "configured w" "socketListeners w" "\<forall>e\<in>set es. \<not> is_finish e"
    and "run (EvConnect t la ra # es) w = Inr w'"
  shows "sentRequestAt (timings w') = None"
proof -
  let ?P = "\<lambda>v. configured v \<and> sentRequestAt (timings v) = None"
  have "?P (on_connect t la ra w)"
    using assms(1) by (simp add: on_connect_def configured_def)
  then have "\<exists>v. run es (on_connect t la ra w) = Inr v \<and> ?P v"
  proof (rule run_invariant [where Q = "\<lambda>e. \<not> is_finish e"])
    fix e v assume "?P v" "\<not> is_finish e"
    then show "\<exists>v'. step e v = Inr v' \<and> ?P v'"
      by (cases e)
         (simp_all add: configured_def listener_defs terminal_defs triggerMetrics_char Let_def
            split: option.split)
  qed (use assms(3) in simp)
  with assms(2,4) show ?thesis by simp
qed

text \<open>
  Claim C4 (the reported \<^verbatim>\<open>durationSend\<close> is never negative) does not hold of the
  code. A \<^verbatim>\<open>finish\<close> that comes after \<^verbatim>\<open>connect\<close> but before \<^verbatim>\<open>secureConnect\<close>
  is not cleared: here the clock only advances (seconds 0 to 5), and the reported
  \<^verbatim>\<open>durationSend\<close> is $-1000$ ms.
\<close>

theorem durationSend_negative:
  "map durationSend
     (reported (run [EvSocket (0, 0), EvConnect (1, 0) None None, EvFinish (2, 0),
                     EvSecureConnect (3, 0), EvSocketData (4, 0),
                     EvResponse (example_response (Some ''42'')) None 0,
                     EvResponseEnd (5, 0)]
                  (example_world (Some (UserFn 0)))))
     = [Some (- 1000)]"
  by code_simp

text \<open>
  Without a \<^verbatim>\<open>secureConnect\<close> event (a plain http request) and with a clock that never
  runs backwards, no reported \<^verbatim>\<open>durationSend\<close> is negative: the case above is the
  only way to a negative value.
\<close>

lemma getDurationInMs_Some:
  "getDurationInMs (Some x) (Some y) = Some (of_int (instant_ns y - instant_ns x) / 1000000)"
  by (simp add: instant_ns_def NS_PER_SEC_def MS_PER_NS_def Let_def algebra_simps)

lemma before_not_negative:
  "before a b \<Longrightarrow> not_negative (getDurationInMs (or_time None a) b)"
  by (cases a; cases b)
     (simp_all add: before_def not_negative_def or_time_def getDurationInMs_Some
        del: getDurationInMs.simps(3))

lemma bounded_simps [simp]:
  "bounded T None"
  "bounded T (Some t) = (instant_ns t \<le> T)"
  by (simp_all add: bounded_def)

lemma before_simps [simp]:
  "before None b"
  "before a None"
  "before (Some x) (Some y) = (instant_ns x \<le> instant_ns y)"
  by (simp_all add: before_def split: option.split)

lemma bounded_mono: "bounded T x \<Longrightarrow> T \<le> T' \<Longrightarrow> bounded T' x"
  by (cases x) simp_all

lemma bounded_before: "bounded T x \<Longrightarrow> T \<le> instant_ns t \<Longrightarrow> before x (Some t)"
  by (cases x) simp_all

lemma step_send_inv:
  assumes "send_inv T w" "\<not> is_secureConnect e"
    and "case stamp e of None \<Rightarrow> T' = T | Some t \<Rightarrow> T \<le> instant_ns t \<and> T' = instant_ns t"
  shows "\<exists>w'. step e w = Inr w' \<and> send_inv T' w'"
proof -
  from assms(1) have b: "not_negative (getDurationInMs
      (or_time None (tcpConnectionAt (timings w))) (sentRequestAt (timings w)))"
    by (simp add: send_inv_def before_not_negative)
  from assms(3) have le: "T \<le> T'" by (cases "stamp e") simp_all
  from assms(1) le have m: "bounded T' (tcpConnectionAt (timings w))"
    "bounded T' (sentRequestAt (timings w))"
    by (auto simp: send_inv_def intro: bounded_mono)
  from assms(1) have f: "bounded T (tcpConnectionAt (timings w))"
    by (simp add: send_inv_def)
  from assms b m show ?thesis
    by (cases e)
       (simp_all add: send_inv_def configured_def listener_defs terminal_defs
          triggerMetrics_char the_call_fields no_metrics_def Let_def bounded_before [OF f]
          split: option.split)
qed

lemma run_send_inv:
  assumes "send_inv T w" "clock_from T es" "\<forall>e\<in>set es. \<not> is_secureConnect e"
  shows "\<exists>w' T'. run es w = Inr w' \<and> send_inv T' w'"
  using assms
proof (induction es arbitrary: T w)
  case Nil
  then show ?case by auto
next
  case (Cons e es)
  define T' where "T' = (case stamp e of None \<Rightarrow> T | Some t \<Rightarrow> instant_ns t)"
  from Cons.prems(2) have c: "case stamp e of None \<Rightarrow> T' = T
        | Some t \<Rightarrow> T \<le> instant_ns t \<and> T' = instant_ns t"
    and r: "clock_from T' es"
    by (cases "stamp e"; simp add: T'_def)+
  from Cons.prems(3) have q: "\<not> is_secureConnect e" "\<forall>x\<in>set es. \<not> is_secureConnect x"
    by simp_all
  from step_send_inv [OF Cons.prems(1) q(1) c]
  obtain v where v: "step e w = Inr v" "send_inv T' v" by blast
  from Cons.IH [OF v(2) r q(2)] v(1) show ?case by simp
qed

lemma durationSend_not_negative_without_tls:
  assumes "requestWithMetrics newURL UA now f cbo inp opts cb = Inr (req, w)"
    and "clock_from (instant_ns now) es"
    and "\<forall>e\<in>set es. \<not> is_secureConnect e"
    and "run es w = Inr w'"
    and "c \<in> set (calls w')"
  shows "not_negative (durationSend (arg c))"
proof -
  from assms(1) have "send_inv (instant_ns now) w"
    by (auto simp: builder_defs ignoreRequest_def send_inv_def configured_def Let_def
          split: sum.splits option.splits if_splits)
  from run_send_inv [OF this assms(2,3)] assms(4,5) show ?thesis
    by (auto simp: send_inv_def)
qed

section \<open>The reported URL\<close>

lemma the_call_target:
  "same_target (arg (the_call x w))
     (spread (requestMetrics (the (this_httpOptions w)) (the (this_request w)))
        (no_metrics\<lparr>protocol := protocol x, host := host x, port := port x, path := path x,
                     url := url x\<rparr>))"
  by (simp add: same_target_def the_call_def spread_def getResponseMetrics_other_fields
        getTimingMetrics_fields no_metrics_def)

lemma same_target_spread_none:
  "this_httpOptions w = Some ho \<Longrightarrow> this_request w = Some rq
   \<Longrightarrow> protocol x = None \<Longrightarrow> host x = None \<Longrightarrow> port x = None \<Longrightarrow> path x = None
   \<Longrightarrow> url x = None
   \<Longrightarrow> same_target (arg (the_call x w)) (requestMetrics ho rq)"
  using the_call_target [of x w] by (simp add: same_target_def spread_def no_metrics_def)

lemma step_target_inv:
  assumes "target_inv ho rq w"
  shows "\<exists>w'. step e w = Inr w' \<and> target_inv ho rq w'"
  using assms
  by (cases e)
     (simp_all add: target_inv_def configured_def listener_defs terminal_defs
        triggerMetrics_char same_target_spread_none no_metrics_def Let_def split: option.split)

lemma run_target_inv:
  assumes "target_inv ho rq w"
  shows "\<exists>w'. run es w = Inr w' \<and> target_inv ho rq w'"
  using assms
  by (rule run_invariant [where Q = "\<lambda>e. True"]) (use step_target_inv in \<open>blast+\<close>)

lemma requestMetrics_urlToOptions:
  assumes "url_protocol u = ''http:'' \<or> url_protocol u = ''https:''"
    and "bare_host (url_hostname u) \<noteq> []"
    and "url_pathname u \<noteq> []"
    and "url_port u \<noteq> Some 0"
  shows "protocol (requestMetrics (urlToOptions u) rq) = Some (url_protocol u)"
    and "host (requestMetrics (urlToOptions u) rq) = Some (bare_host (url_hostname u))"
    and "port (requestMetrics (urlToOptions u) rq)
           = Some (Num (int (case url_port u of
                               None \<Rightarrow> default_port (url_protocol u)
                             | Some p \<Rightarrow> p)))"
    and "path (requestMetrics (urlToOptions u) rq) = Some (url_pathname u @ url_search u)"
    and "url (requestMetrics (urlToOptions u) rq) = Some (reconstructed u)"
  using assms
  by (auto simp: requestMetrics_def urlToOptions_def empty_options_def no_metrics_def
        truthy_str_def truthy_port_def or_else_def or_str_def default_port_def bare_host_def
        reconstructed_def showNum_def Let_def split: option.splits)

text \<open>
  Claim C8, as stated, fails: for \<^verbatim>\<open>http://example.com:0/\<close> the port 0 is falsy in
  \<^verbatim>\<open>opts.port || opts.defaultPort || ...\<close>, so the reported port is 80 and the
  reported url has no port.
\<close>

theorem url_port_zero_counterexample:
  "map port (metrics_after [EvTimeout (1, 0)]
       (requestWithMetrics port0_newURL ''sink/1.0'' (0, 0) example_requestFn (Some (UserFn 0))
          (InString ''http://example.com:0/'') ArgUndefined None))
     = [Some (Num 80)]
   \<and> map url (metrics_after [EvTimeout (1, 0)]
       (requestWithMetrics port0_newURL ''sink/1.0'' (0, 0) example_requestFn (Some (UserFn 0))
          (InString ''http://example.com:0/'') ArgUndefined None))
     = [Some ''http://example.com/'']"
  by code_simp

text \<open>
  Claim C8, amended. For a request given as an http or https URL string, without
  options, whose explicit port (if any) is not 0, every report has the scheme of the
  URL, its host (an IPv6 literal without its brackets), its port (the explicit one, else
  80 or 443), its path with the query, and as url the scheme, host, port and path of
  the input with the default port of the scheme left out. In particular an https URL
  with no explicit port is reported with protocol \<^verbatim>\<open>https:\<close>, port 443 and a url
  without port.
\<close>

theorem url_reconstructed:
  assumes "requestWithMetrics newURL UA now f cbo (InString s) opts cb = Inr (req, w)"
    and "opts = ArgUndefined \<or> opts = ArgFunction"
    and "newURL s = Some u"
    and "url_protocol u = ''http:'' \<or> url_protocol u = ''https:''"
    and "bare_host (url_hostname u) \<noteq> []"
    and "url_pathname u \<noteq> []"
    and "url_port u \<noteq> Some 0"
    and "run es w = Inr w'"
    and "c \<in> set (calls w')"
  shows "protocol (arg c) = Some (url_protocol u)
       \<and> host (arg c) = Some (bare_host (url_hostname u))
       \<and> port (arg c)
           = Some (Num (int (case url_port u of
                               None \<Rightarrow> default_port (url_protocol u)
                             | Some p \<Rightarrow> p)))
       \<and> path (arg c) = Some (url_pathname u @ url_search u)
       \<and> url (arg c) = Some (reconstructed u)
       \<and> (url_protocol u = ''https:'' \<and> url_port u = None \<longrightarrow>
            protocol (arg c) = Some ''https:'' \<and> port (arg c) = Some (Num 443)
            \<and> url (arg c)
                = Some (''https://'' @ bare_host (url_hostname u) @ url_pathname u
                          @ url_search u))"
proof -
  from requestWithMetrics_world [OF assms(1)] assms(2,3)
  have "target_inv (urlToOptions u) req w"
    by (auto simp: target_inv_def fresh_def httpOptions_def)
  from run_target_inv [OF this, of es] assms(8,9)
  have t: "same_target (arg c) (requestMetrics (urlToOptions u) req)"
    by (auto simp: target_inv_def)
  note m = requestMetrics_urlToOptions [OF assms(4-7), of req]
  from t m have 1: "protocol (arg c) = Some (url_protocol u)"
    and 2: "host (arg c) = Some (bare_host (url_hostname u))"
    and 3: "port (arg c)
              = Some (Num (int (case url_port u of
                                  None \<Rightarrow> default_port (url_protocol u)
                                | Some p \<Rightarrow> p)))"
    and 4: "path (arg c) = Some (url_pathname u @ url_search u)"
    and 5: "url (arg c) = Some (reconstructed u)"
    by (simp_all add: same_target_def)
  have 6: "protocol (arg c) = Some ''https:'' \<and> port (arg c) = Some (Num 443)
            \<and> url (arg c)
                = Some (''https://'' @ bare_host (url_hostname u) @ url_pathname u
                          @ url_search u)"
    if "url_protocol u = ''https:'' \<and> url_port u = None"
    using that 1 3 5 by (simp add: reconstructed_def default_port_def)
  from 1 2 3 4 5 6 show ?thesis by blast
qed

text \<open>
  The example request \<^verbatim>\<open>https://example.com/api\<close>.
\<close>

theorem url_reconstructed_witness:
  "requestWithMetrics example_newURL ''sink/1.0'' (0, 0) example_requestFn (Some (UserFn 0))
      (InString ''https://example.com/api'') ArgUndefined None
     = Inr (example_request, example_world (Some (UserFn 0)))
   \<and> example_newURL ''https://example.com/api'' = Some example_url
   \<and> url_protocol example_url = ''https:'' \<and> url_port example_url = None
   \<and> bare_host (url_hostname example_url) \<noteq> [] \<and> url_pathname example_url \<noteq> []
   \<and> (\<exists>w' c. run [EvResponse (example_response (Some ''42'')) None 0, EvResponseEnd (5, 0)]
                 (example_world (Some (UserFn 0))) = Inr w'
          \<and> c \<in> set (calls w')
          \<and> protocol (arg c) = Some ''https:''
          \<and> host (arg c) = Some ''example.com''
          \<and> port (arg c) = Some (Num 443)
          \<and> path (arg c) = Some ''/api''
          \<and> url (arg c) = Some ''https://example.com/api'')"
proof -
  let ?w = "example_world (Some (UserFn 0))"
  let ?es = "[EvResponse (example_response (Some ''42'')) None 0, EvResponseEnd (5, 0)]"
  have n: "length (reported (run ?es ?w)) = 1" by code_simp
  from run_configured [OF example_world_configured [of "Some (UserFn 0)"], of ?es]
  obtain w' where w': "run ?es ?w = Inr w'" by blast
  with n have "length (calls w') = 1" by (simp add: reported_def)
  then obtain c where c: "c \<in> set (calls w')" by (cases "calls w'") auto
  have u: "example_newURL ''https://example.com/api'' = Some example_url"
    "url_protocol example_url = ''https:''" "url_port example_url = None"
    "bare_host (url_hostname example_url) = ''example.com''"
    "url_pathname example_url = ''/api''" "url_search example_url = []"
    by (simp_all add: example_newURL_def example_url_def bare_host_def startsWith_def)
  from url_reconstructed
         [OF example_requestWithMetrics [of "Some (UserFn 0)"] _ u(1) _ _ _ _ w' c] u
  have "protocol (arg c) = Some ''https:'' \<and> host (arg c) = Some ''example.com''
          \<and> port (arg c) = Some (Num 443) \<and> path (arg c) = Some ''/api''
          \<and> url (arg c) = Some ''https://example.com/api''"
    by (simp add: default_port_def reconstructed_def)
  with w' c u example_requestWithMetrics [of "Some (UserFn 0)"] show ?thesis by auto
qed

section \<open>Exactly one report\<close>













end
